theory Spec2Isabelle
  imports Main "HOL-Library.Multiset" "HOL-Library.List_Lexorder"
begin

section \<open>JavaScript values\<close>

text \<open>
  The data layer of the CRM front end (\<^verbatim>\<open>src/contexts/AppContext.tsx\<close>) handles values
  of type \<^verbatim>\<open>any\<close>: wire records decoded from JSON, and partial updates supplied by the
  forms. They are modelled by a datatype of JavaScript values. Numbers are \<open>NaN\<close> and the
  integers, which is what \<^verbatim>\<open>parseInt\<close> returns and what ids, pages and budgets are;
  fractional numbers and the infinities are left out.
\<close>

datatype jsnum = NaN | Fin int

datatype jsval =
    JUndefined
  | JNull
  | JBool bool
  | JNum jsnum
  | JStr string
  | JArr "jsval list"
  | JObj "(string \<times> jsval) list"

datatype js_error = TypeError | SyntaxError | Error string

text \<open>Truthiness, and the operator \<^verbatim>\<open>a || b\<close>.\<close>

fun truthy :: "jsval \<Rightarrow> bool" where
  "truthy JUndefined = False"
| "truthy JNull = False"
| "truthy (JBool b) = b"
| "truthy (JNum NaN) = False"
| "truthy (JNum (Fin n)) = (n \<noteq> 0)"
| "truthy (JStr s) = (s \<noteq> [])"
| "truthy (JArr xs) = True"
| "truthy (JObj ps) = True"

definition js_or :: "jsval \<Rightarrow> jsval \<Rightarrow> jsval" where
  "js_or a b = (if truthy a then a else b)"

text \<open>
  What the code takes from the JavaScript runtime, and what this theory leaves open:
  \<^verbatim>\<open>parseInt\<close> and the loose equality \<^verbatim>\<open>==\<close> on the values that convert to a
  primitive (the others make them raise, see \<open>to_primitive_raises\<close> below),
  \<^verbatim>\<open>JSON.parse\<close> (\<open>None\<close> when it throws), the collation of \<^verbatim>\<open>localeCompare\<close> (given by the sort key of a string:
  \<^verbatim>\<open>a.localeCompare(b)\<close> compares the keys of \<open>a\<close> and \<open>b\<close>), and whether two array or
  object values are one and the same object, which their contents do not tell.
  Every theorem below holds for any such runtime.
\<close>

record js_runtime =
  parseInt :: "jsval \<Rightarrow> jsnum"
  JSON_parse :: "jsval \<Rightarrow> jsval option"
  loose_eq :: "jsval \<Rightarrow> jsval \<Rightarrow> bool"
  collation_key :: "string \<Rightarrow> nat list"
  same_object :: "jsval \<Rightarrow> jsval \<Rightarrow> bool"

text \<open>Strict equality \<^verbatim>\<open>a === b\<close>: \<open>NaN\<close> equals nothing, objects are equal by identity.\<close>

fun strict_eq :: "js_runtime \<Rightarrow> jsval \<Rightarrow> jsval \<Rightarrow> bool" where
  "strict_eq rt JUndefined JUndefined = True"
| "strict_eq rt JNull JNull = True"
| "strict_eq rt (JBool a) (JBool b) = (a = b)"
| "strict_eq rt (JNum a) (JNum b) = (a = b \<and> a \<noteq> NaN)"
| "strict_eq rt (JStr a) (JStr b) = (a = b)"
| "strict_eq rt (JArr a) (JArr b) = same_object rt (JArr a) (JArr b)"
| "strict_eq rt (JObj a) (JObj b) = same_object rt (JObj a) (JObj b)"
| "strict_eq rt a b = False"

text \<open>Property access on an object: a missing property reads as \<^verbatim>\<open>undefined\<close>.\<close>

definition get_prop :: "(string \<times> jsval) list \<Rightarrow> string \<Rightarrow> jsval" where
  "get_prop obj k = (case map_of obj k of None \<Rightarrow> JUndefined | Some v \<Rightarrow> v)"

text \<open>
  Converting a value to a primitive (\<^verbatim>\<open>ToPrimitive\<close>, which \<^verbatim>\<open>ToString\<close> and
  \<^verbatim>\<open>==\<close> apply to an object) raises a \<^verbatim>\<open>TypeError\<close> when neither \<^verbatim>\<open>toString\<close>
  nor \<^verbatim>\<open>valueOf\<close> yields a primitive. No value of the model is callable, so an object
  with a property \<^verbatim>\<open>toString\<close> of its own hides \<^verbatim>\<open>Object.prototype.toString\<close>, and
  \<^verbatim>\<open>Object.prototype.valueOf\<close> returns the object itself: the conversion raises. Every
  other object prints as \<^verbatim>\<open>[object Object]\<close>. An array is printed by \<^verbatim>\<open>join\<close>, which
  converts its elements, so it raises when one of them does.
\<close>

fun to_primitive_raises :: "jsval \<Rightarrow> bool" where
  "to_primitive_raises (JObj ps) = list_ex (\<lambda>p. fst p = ''toString'') ps"
| "to_primitive_raises (JArr xs) = list_ex (\<lambda>x. to_primitive_raises x) xs"
| "to_primitive_raises v = False"

text \<open>
  \<^verbatim>\<open>parseInt(v)\<close> converts \<open>v\<close> to a string first, and \<^verbatim>\<open>v == n\<close> with a number
  \<open>n\<close> converts an object \<open>v\<close> to a primitive first.
\<close>

definition js_parseInt :: "js_runtime \<Rightarrow> jsval \<Rightarrow> js_error + jsnum" where
  "js_parseInt rt v = (if to_primitive_raises v then Inl TypeError else Inr (parseInt rt v))"

definition loose_eq_number :: "js_runtime \<Rightarrow> jsval \<Rightarrow> jsnum \<Rightarrow> js_error + bool" where
  "loose_eq_number rt v n =
     (if to_primitive_raises v then Inl TypeError else Inr (loose_eq rt v (JNum n)))"

text \<open>\<^verbatim>\<open>s.split(",")\<close> on a string.\<close>

fun split_comma :: "string \<Rightarrow> string list" where
  "split_comma [] = [[]]"
| "split_comma (c # cs) =
     (if c = CHR '','' then [] # split_comma cs
      else (case split_comma cs of [] \<Rightarrow> [[c]] | w # ws \<Rightarrow> (c # w) # ws))"

subsection \<open>JSON.stringify\<close>

text \<open>
  Integers print in decimal (as JavaScript prints them below \<open>10^21\<close>), \<open>NaN\<close> prints as
  \<^verbatim>\<open>null\<close>, a property whose value is \<^verbatim>\<open>undefined\<close> is left out of an object and
  printed as \<^verbatim>\<open>null\<close> in an array; \<^verbatim>\<open>JSON.stringify(undefined)\<close> is \<^verbatim>\<open>undefined\<close>,
  here \<open>None\<close>.
\<close>

fun nat_to_string :: "nat \<Rightarrow> string" where
  "nat_to_string n =
     (if n < 10 then [char_of (48 + n)]
      else nat_to_string (n div 10) @ [char_of (48 + n mod 10)])"

definition int_to_string :: "int \<Rightarrow> string" where
  "int_to_string i =
     (if i < 0 then CHR ''-'' # nat_to_string (nat (- i)) else nat_to_string (nat i))"

definition hex_digit :: "nat \<Rightarrow> char" where
  "hex_digit n = (if n < 10 then char_of (48 + n) else char_of (87 + n))"

definition quote_char :: "char \<Rightarrow> string" where
  "quote_char c =
     (if c = CHR 0x22 then [CHR 0x5C, CHR 0x22]
      else if c = CHR 0x5C then [CHR 0x5C, CHR 0x5C]
      else if c = CHR 0x08 then [CHR 0x5C, CHR ''b'']
      else if c = CHR 0x0C then [CHR 0x5C, CHR ''f'']
      else if c = CHR 0x0A then [CHR 0x5C, CHR ''n'']
      else if c = CHR 0x0D then [CHR 0x5C, CHR ''r'']
      else if c = CHR 0x09 then [CHR 0x5C, CHR ''t'']
      else if (of_char c :: nat) < 32
        then [CHR 0x5C, CHR ''u'', CHR ''0'', CHR ''0'',
              hex_digit (of_char c div 16), hex_digit (of_char c mod 16)]
      else [c])"

definition quote :: "string \<Rightarrow> string" where
  "quote s = [CHR 0x22] @ concat (map quote_char s) @ [CHR 0x22]"

fun join :: "string \<Rightarrow> string list \<Rightarrow> string" where
  "join sep [] = []"
| "join sep [x] = x"
| "join sep (x # y # ys) = x @ sep @ join sep (y # ys)"

fun stringify :: "jsval \<Rightarrow> string option" where
  "stringify JUndefined = None"
| "stringify JNull = Some ''null''"
| "stringify (JBool b) = Some (if b then ''true'' else ''false'')"
| "stringify (JNum NaN) = Some ''null''"
| "stringify (JNum (Fin i)) = Some (int_to_string i)"
| "stringify (JStr s) = Some (quote s)"
| "stringify (JArr xs) =
     Some (''['' @ join '',''
       (map (\<lambda>x. case stringify x of None \<Rightarrow> ''null'' | Some t \<Rightarrow> t) xs) @ '']'')"
| "stringify (JObj ps) =
     Some (''{'' @ join '',''
       (concat (map (\<lambda>(k, v). case stringify v of None \<Rightarrow> []
                                | Some t \<Rightarrow> [quote k @ '':'' @ t]) ps)) @ ''}'')"

text \<open>The serialisation of an object literal, which is always a string.\<close>

definition stringify_object :: "(string \<times> jsval) list \<Rightarrow> string" where
  "stringify_object ps =
     ''{'' @ join '',''
       (concat (map (\<lambda>(k, v). case stringify v of None \<Rightarrow> []
                                | Some t \<Rightarrow> [quote k @ '':'' @ t]) ps)) @ ''}''"

section \<open>The data model\<close>

text \<open>
  \<^verbatim>\<open>Lead\<close>, \<^verbatim>\<open>Todo\<close> and \<^verbatim>\<open>FilterOption\<close> of \<^verbatim>\<open>src/types\<close>. The fields of a lead
  hold what the transformer and the updates put there, which at run time is any value. The
  source's field names \<^verbatim>\<open>id\<close>, \<^verbatim>\<open>note\<close> and \<^verbatim>\<open>type\<close> are written \<open>lead_id\<close>,
  \<open>lead_note\<close> and \<open>lead_type\<close>.
\<close>

record lead =
  lead_id :: jsval
  isInPipeline :: jsval
  name :: jsval
  phone :: jsval
  alternatePhone :: jsval
  address :: jsval
  labels :: jsval
  stage :: jsval
  priority :: jsval
  requirement :: jsval
  budget :: jsval
  about :: jsval
  lead_note :: jsval
  listName :: jsval
  source :: jsval
  customFields :: jsval
  lead_type :: jsval
  assignedTo :: jsval
  adminId :: jsval
  email :: jsval
  leadScore :: jsval
  lastNote :: jsval
  createdAt :: jsval
  updatedAt :: jsval

record todo =
  todo_id :: jsval
  leadId :: jsval
  todo_type :: jsval
  description :: jsval
  responseNote :: jsval
  status :: jsval
  dateTime :: jsval
  participants :: jsval
  todo_createdAt :: jsval
  todo_updatedAt :: jsval

text \<open>\<^verbatim>\<open>FilterOption.value\<close> is \<^verbatim>\<open>string | number | string[]\<close>.\<close>

datatype filter_value = FStr string | FNum int | FArr "string list"

record filter_option =
  field :: string
  operator :: string
  fvalue :: filter_value

fun filter_value_json :: "filter_value \<Rightarrow> jsval" where
  "filter_value_json (FStr s) = JStr s"
| "filter_value_json (FNum n) = JNum (Fin n)"
| "filter_value_json (FArr xs) = JArr (map JStr xs)"

definition filter_json :: "filter_option \<Rightarrow> jsval" where
  "filter_json f =
     JObj [(''field'', JStr (field f)), (''operator'', JStr (operator f)),
           (''value'', filter_value_json (fvalue f))]"

section \<open>Option Mapper\<close>

text \<open>
  \<^verbatim>\<open>src/data/options\<close> is not among the sources. The option tables (\<^verbatim>\<open>stageOptions\<close>,
  \<^verbatim>\<open>priorityOptions\<close>) are parameters of the functions that use them.
\<close>

record crm_option =
  opt_value :: string
  opt_label :: string
  apiValue :: string

text \<open>
  Modelled from the spec: \<^verbatim>\<open>getOptionByApiValue\<close> of the missing \<^verbatim>\<open>src/data/options\<close>,
  the reverse mapping of the Option Mapper: "search the option set for an entry whose wire
  representation equals the given raw value".
\<close>

definition getOptionByApiValue ::
  "js_runtime \<Rightarrow> crm_option list \<Rightarrow> jsval \<Rightarrow> crm_option option" where
  "getOptionByApiValue rt options v =
     find (\<lambda>opt. strict_eq rt (JStr (apiValue opt)) v) options"

section \<open>Entity Transformer\<close>

text \<open>
  \<^verbatim>\<open>transformApiLeadToLead\<close>. The wire record is an object. The function raises a
  \<^verbatim>\<open>TypeError\<close> at \<^verbatim>\<open>apiLead.labels.split(",")\<close> when \<^verbatim>\<open>labels\<close> is truthy and not
  a string, since no other value of the model has a method \<^verbatim>\<open>split\<close>, and at the
  four calls of \<^verbatim>\<open>parseInt\<close> and at \<^verbatim>\<open>apiLead.is_in_pipeline == 1\<close> when their
  argument does not convert to a primitive. \<^verbatim>\<open>JSON.parse\<close> converts its argument too,
  inside the \<^verbatim>\<open>try\<close>, where every error is caught. The checks come in the order of the
  source: \<^verbatim>\<open>id\<close>, \<^verbatim>\<open>budget\<close>, and then the fields of the returned object.
\<close>

text \<open>\<^verbatim>\<open>parseInt(v) || 0\<close>.\<close>

definition parse_or_zero :: "js_runtime \<Rightarrow> jsval \<Rightarrow> js_error + jsval" where
  "parse_or_zero rt v =
     (case js_parseInt rt v of
        Inl e \<Rightarrow> Inl e
      | Inr n \<Rightarrow> Inr (js_or (JNum n) (JNum (Fin 0))))"

definition map_option_field ::
  "js_runtime \<Rightarrow> crm_option list \<Rightarrow> string \<Rightarrow> jsval \<Rightarrow> jsval" where
  "map_option_field rt options fallback v =
     (if list_ex (\<lambda>opt. strict_eq rt (JStr (opt_value opt)) v) options then v
      else js_or (case getOptionByApiValue rt options v of
                    None \<Rightarrow> JUndefined
                  | Some opt \<Rightarrow> JStr (opt_value opt))
                 (JStr fallback))"

definition parse_custom_fields :: "js_runtime \<Rightarrow> jsval \<Rightarrow> jsval" where
  "parse_custom_fields rt cf =
     (if truthy cf
      then (if to_primitive_raises cf then JObj []
            else (case JSON_parse rt cf of Some v \<Rightarrow> v | None \<Rightarrow> JObj []))
      else JObj [])"

definition split_labels :: "jsval \<Rightarrow> js_error + jsval" where
  "split_labels l =
     (if truthy l
      then (case l of JStr s \<Rightarrow> Inr (JArr (map JStr (split_comma s)))
                    | _ \<Rightarrow> Inl TypeError)
      else Inr (JArr []))"

definition transformApiLeadToLead ::
  "js_runtime \<Rightarrow> crm_option list \<Rightarrow> crm_option list \<Rightarrow> (string \<times> jsval) list
     \<Rightarrow> js_error + lead" where
  "transformApiLeadToLead rt stageOptions priorityOptions apiLead =
     (case js_parseInt rt (get_prop apiLead ''id'') of Inl e \<Rightarrow> Inl e | Inr i \<Rightarrow>
     (case parse_or_zero rt (get_prop apiLead ''budget'') of Inl e \<Rightarrow> Inl e | Inr b \<Rightarrow>
     (case loose_eq_number rt (get_prop apiLead ''is_in_pipeline'') (Fin 1) of
        Inl e \<Rightarrow> Inl e | Inr pipeline \<Rightarrow>
     (case split_labels (get_prop apiLead ''labels'') of Inl e \<Rightarrow> Inl e | Inr ls \<Rightarrow>
     (case parse_or_zero rt (get_prop apiLead ''admin_id'') of Inl e \<Rightarrow> Inl e | Inr a \<Rightarrow>
     (case parse_or_zero rt (get_prop apiLead ''lead_scrore'') of Inl e \<Rightarrow> Inl e | Inr sc \<Rightarrow>
        Inr
         \<lparr> lead_id = JNum i,
           isInPipeline = JBool pipeline,
           name = js_or (get_prop apiLead ''name'') (JStr []),
           phone = js_or (get_prop apiLead ''phone'') (JStr []),
           alternatePhone =
             js_or (get_prop apiLead ''alter_contact'')
               (js_or (get_prop apiLead ''alternative_contact_details'')
                 (js_or (get_prop apiLead ''alternate_phone'') (JStr []))),
           address = js_or (get_prop apiLead ''address'') (JStr []),
           labels = ls,
           stage = map_option_field rt stageOptions ''Fresh Lead'' (get_prop apiLead ''stage''),
           priority = map_option_field rt priorityOptions ''General'' (get_prop apiLead ''priority''),
           requirement = js_or (get_prop apiLead ''requirement'') (JStr []),
           budget = b,
           about = js_or (get_prop apiLead ''about'') (js_or (get_prop apiLead ''about_him'') (JStr [])),
           lead_note = js_or (get_prop apiLead ''note'') (JStr []),
           listName = js_or (get_prop apiLead ''listname'') (JStr []),
           source = js_or (get_prop apiLead ''source'') (JStr ''Other''),
           customFields = parse_custom_fields rt (get_prop apiLead ''custom_fields''),
           lead_type = js_or (get_prop apiLead ''type'') (JStr ''lead''),
           assignedTo = js_or (get_prop apiLead ''assignd_to'') (JStr []),
           adminId = a,
           email = js_or (get_prop apiLead ''email'') (JStr []),
           leadScore = sc,
           lastNote = js_or (get_prop apiLead ''last_note'') (JStr []),
           createdAt = get_prop apiLead ''created_at'',
           updatedAt = get_prop apiLead ''updated_at'' \<rparr>))))))"

section \<open>Request Deduplicator\<close>

text \<open>
  \<^verbatim>\<open>activeRequests\<close> maps a request key to the promise in flight under it. A promise is
  a number. \<open>pending\<close> holds, for every promise that has not settled, the key that its
  \<^verbatim>\<open>finally\<close> handler will delete; \<open>started\<close> logs every run of a \<^verbatim>\<open>requestFn\<close> with
  its key and its promise. The state \<open>'s\<close> is what the \<^verbatim>\<open>requestFn\<close> itself works on:
  \<open>requestFn\<close> below is the part of the asynchronous function that runs before its first
  \<^verbatim>\<open>await\<close>, and the \<open>continuation\<close> of \<open>settle\<close> is the rest of it.
\<close>

record dedup =
  activeRequests :: "string \<rightharpoonup> nat"
  pending :: "nat \<rightharpoonup> string"
  next_promise :: nat
  started :: "(string \<times> nat) list"

definition empty_dedup :: dedup where
  "empty_dedup =
     \<lparr> activeRequests = Map.empty, pending = Map.empty, next_promise = 0, started = [] \<rparr>"

definition createRequestKey :: "string \<Rightarrow> jsval \<Rightarrow> string" where
  "createRequestKey type params =
     type @ ''-'' @ (case stringify params of None \<Rightarrow> ''undefined'' | Some t \<Rightarrow> t)"

definition makeRequest :: "string \<Rightarrow> ('s \<Rightarrow> 's) \<Rightarrow> dedup \<times> 's \<Rightarrow> nat \<times> dedup \<times> 's" where
  "makeRequest key requestFn w =
     (case w of (d, s) \<Rightarrow>
        (case activeRequests d key of
           Some promise \<Rightarrow> (promise, d, s)
         | None \<Rightarrow>
             (let promise = next_promise d in
              (promise,
               d\<lparr> activeRequests := (activeRequests d)(key \<mapsto> promise),
                  pending := (pending d)(promise \<mapsto> key),
                  next_promise := Suc promise,
                  started := started d @ [(key, promise)] \<rparr>,
               requestFn s))))"

text \<open>
  The promise settles, with success or with failure: the rest of the request function
  has run, and the \<^verbatim>\<open>finally\<close> handler deletes the key it was started under.
\<close>

definition settle :: "nat \<Rightarrow> ('s \<Rightarrow> 's) \<Rightarrow> dedup \<times> 's \<Rightarrow> dedup \<times> 's" where
  "settle promise continuation w =
     (case w of (d, s) \<Rightarrow>
        (case pending d promise of
           None \<Rightarrow> (d, s)
         | Some key \<Rightarrow>
             (d\<lparr> activeRequests := (activeRequests d)(key := None),
                 pending := (pending d)(promise := None) \<rparr>,
              continuation s)))"

text \<open>
  An execution of the deduplicator alone: calls of \<^verbatim>\<open>makeRequest\<close> and settlements, in
  any order. \<open>exec\<close> returns the promise that each call received.
\<close>

datatype 's event = Call string "'s \<Rightarrow> 's" | Settle nat "'s \<Rightarrow> 's"

fun exec :: "'s event list \<Rightarrow> dedup \<times> 's \<Rightarrow> (string \<times> nat) list \<times> dedup \<times> 's" where
  "exec [] w = ([], w)"
| "exec (Call key f # es) w =
     (case makeRequest key f w of
        (promise, w') \<Rightarrow> (case exec es w' of (rs, w'') \<Rightarrow> ((key, promise) # rs, w'')))"
| "exec (Settle promise c # es) w = exec es (settle promise c w)"



text \<open>
  What holds of the deduplicator as long as only \<^verbatim>\<open>makeRequest\<close> and the settlements
  touch it: a key is registered exactly while its promise is pending.
\<close>

definition dedup_inv :: "dedup \<Rightarrow> bool" where
  "dedup_inv d \<longleftrightarrow>
     (\<forall>key p. activeRequests d key = Some p \<longleftrightarrow> pending d p = Some key) \<and>
     (\<forall>p key. pending d p = Some key \<longrightarrow> p < next_promise d)"

section \<open>State Store\<close>

record cache_entry =
  data :: "lead list"
  params :: "string option"
  timestamp :: int
  total :: "int option"

text \<open>The remote requests that the provider issues, as far as the claims need them.\<close>

datatype request =
    GetContacts int int string string string "filter_option list"
  | PutContact jsval "(string \<times> jsval) list"
  | DeleteContact jsval

record app_state =
  leads :: "lead list"
  todos :: "todo list"
  leadFilters :: "filter_option list"
  todoFilters :: "filter_option list"
  activeLeadId :: jsval
  isLoading :: bool
  error :: "js_error option"
  globalLeadsCache :: cache_entry
  network :: "request list"
  events :: nat

definition empty_cache :: cache_entry where
  "empty_cache = \<lparr> data = [], params = None, timestamp = 0, total = None \<rparr>"

text \<open>
  \<^verbatim>\<open>invalidateLeadsCache\<close> of \<^verbatim>\<open>AppContext.tsx\<close>: it resets the slot, clears the map of
  requests in flight (their promises stay pending) and dispatches the event unless told
  not to.
\<close>

definition invalidateLeadsCache :: "bool \<Rightarrow> dedup \<times> app_state \<Rightarrow> dedup \<times> app_state" where
  "invalidateLeadsCache skipEvent w =
     (case w of (d, s) \<Rightarrow>
        (d\<lparr> activeRequests := Map.empty \<rparr>,
         s\<lparr> globalLeadsCache := empty_cache,
            events := (if skipEvent then events s else Suc (events s)) \<rparr>))"

subsection \<open>fetchLeads\<close>

record fetch_params =
  page :: "int option"
  perPage :: "int option"
  sortField :: "string option"
  sortOrder :: "string option"
  search :: "string option"
  currentFilters :: "filter_option list option"

text \<open>
  \<^verbatim>\<open>currentFilters.sort((a, b) => a.field.localeCompare(b.field))\<close>: a stable sort by the
  collation key of the field name.
\<close>

definition sort_filters :: "js_runtime \<Rightarrow> filter_option list \<Rightarrow> filter_option list" where
  "sort_filters rt fs = sort_key (\<lambda>f. collation_key rt (field f)) fs"

definition cacheKey ::
  "int \<Rightarrow> int \<Rightarrow> string \<Rightarrow> string \<Rightarrow> string \<Rightarrow> filter_option list \<Rightarrow> string" where
  "cacheKey pg pp sf so q fs =
     stringify_object
       [(''page'', JNum (Fin pg)), (''perPage'', JNum (Fin pp)), (''sortField'', JStr sf),
        (''sortOrder'', JStr so), (''search'', JStr q), (''filters'', JArr (map filter_json fs))]"

definition opt_json :: "('a \<Rightarrow> jsval) \<Rightarrow> 'a option \<Rightarrow> jsval" where
  "opt_json f x = (case x of None \<Rightarrow> JUndefined | Some v \<Rightarrow> f v)"

text \<open>The \<^verbatim>\<open>params\<close> object as the caller wrote it, its properties in the declared order.\<close>

definition params_json :: "fetch_params \<Rightarrow> jsval" where
  "params_json ps =
     JObj [(''page'', opt_json (\<lambda>n. JNum (Fin n)) (page ps)),
           (''perPage'', opt_json (\<lambda>n. JNum (Fin n)) (perPage ps)),
           (''sortField'', opt_json JStr (sortField ps)),
           (''sortOrder'', opt_json JStr (sortOrder ps)),
           (''search'', opt_json JStr (search ps)),
           (''currentFilters'', opt_json (\<lambda>fs. JArr (map filter_json fs)) (currentFilters ps))]"

definition with_default :: "'a \<Rightarrow> 'a option \<Rightarrow> 'a" where
  "with_default d x = (case x of None \<Rightarrow> d | Some v \<Rightarrow> v)"

datatype fetch_result = Cached "lead list" int | Remote nat

text \<open>
  The part of \<^verbatim>\<open>fetchLeads\<close> that runs at the call, with \<open>now\<close> the value of
  \<^verbatim>\<open>Date.now()\<close>. \<^verbatim>\<open>Array.prototype.sort\<close> sorts in place: when \<^verbatim>\<open>currentFilters\<close> is
  left out, the array sorted is the held \<^verbatim>\<open>leadFilters\<close> itself; when it is passed, it is
  the caller's array, which \<^verbatim>\<open>params\<close> still refers to when the request key is built.
  The request function sets the loading flag, clears the error and calls \<^verbatim>\<open>fetch\<close>; the
  query string it builds from the same values is not modelled.
\<close>

definition fetchLeads ::
  "js_runtime \<Rightarrow> int \<Rightarrow> fetch_params \<Rightarrow> dedup \<times> app_state
     \<Rightarrow> fetch_result \<times> dedup \<times> app_state" where
  "fetchLeads rt now ps w =
     (case w of (d, s) \<Rightarrow>
        (let pg = with_default 1 (page ps);
             pp = with_default 20 (perPage ps);
             sf = with_default ''created_at'' (sortField ps);
             so = with_default ''desc'' (sortOrder ps);
             q = with_default [] (search ps);
             sorted = sort_filters rt (with_default (leadFilters s) (currentFilters ps));
             s1 = (case currentFilters ps of
                     None \<Rightarrow> s\<lparr> leadFilters := sorted \<rparr>
                   | Some fs \<Rightarrow> s);
             ps1 = ps\<lparr> currentFilters := map_option (\<lambda>fs. sorted) (currentFilters ps) \<rparr>;
             key = cacheKey pg pp sf so q sorted;
             cache = globalLeadsCache s1;
             cacheAge = now - timestamp cache;
             cacheValid = (cacheAge < 2 * 60 * 1000)
         in if length (data cache) > 0 \<and> params cache = Some key \<and> cacheValid
            then (Cached (data cache) (with_default 0 (total cache)), d, s1\<lparr> leads := data cache \<rparr>)
            else (case makeRequest (createRequestKey ''leads'' (params_json ps1))
                         (\<lambda>s. s\<lparr> isLoading := True, error := None,
                                 network := network s @ [GetContacts pg pp sf so q sorted] \<rparr>)
                         (d, s1) of
                    (promise, w') \<Rightarrow> (Remote promise, w'))))"

text \<open>The cache key that a call computes, for the rest of the request to store under.\<close>

definition fetchLeads_cacheKey :: "js_runtime \<Rightarrow> fetch_params \<Rightarrow> app_state \<Rightarrow> string" where
  "fetchLeads_cacheKey rt ps s =
     cacheKey (with_default 1 (page ps)) (with_default 20 (perPage ps))
       (with_default ''created_at'' (sortField ps)) (with_default ''desc'' (sortOrder ps))
       (with_default [] (search ps))
       (sort_filters rt (with_default (leadFilters s) (currentFilters ps)))"

text \<open>
  The rest of the request function, run when the response arrives at time \<open>now\<close>:
  the transport fails, the status is not ok, the backend reports failure, or it succeeds
  with a list of records and \<^verbatim>\<open>meta.total\<close>.
\<close>

datatype fetch_outcome =
    TransportFailure
  | NotOk
  | Rejected "string option"
  | Succeeded "(string \<times> jsval) list list" "int option"

fun transform_all ::
  "js_runtime \<Rightarrow> crm_option list \<Rightarrow> crm_option list \<Rightarrow> (string \<times> jsval) list list
     \<Rightarrow> js_error + lead list" where
  "transform_all rt so po [] = Inr []"
| "transform_all rt so po (item # items) =
     (case transformApiLeadToLead rt so po item of
        Inl e \<Rightarrow> Inl e
      | Inr l \<Rightarrow> (case transform_all rt so po items of
                    Inl e \<Rightarrow> Inl e
                  | Inr ls \<Rightarrow> Inr (l # ls)))"

text \<open>\<^verbatim>\<open>message || fallback\<close> on an optional string.\<close>

definition message_or :: "string \<Rightarrow> string option \<Rightarrow> string" where
  "message_or fallback message =
     (case message of None \<Rightarrow> fallback | Some m \<Rightarrow> if m = [] then fallback else m)"

definition fetchLeads_response ::
  "js_runtime \<Rightarrow> crm_option list \<Rightarrow> crm_option list \<Rightarrow> int \<Rightarrow> string \<Rightarrow> fetch_outcome
     \<Rightarrow> app_state \<Rightarrow> app_state" where
  "fetchLeads_response rt stageOptions priorityOptions now key outcome s =
     (case outcome of
        TransportFailure \<Rightarrow> s\<lparr> error := Some TypeError, isLoading := False \<rparr>
      | NotOk \<Rightarrow> s\<lparr> error := Some (Error ''Failed to fetch leads''), isLoading := False \<rparr>
      | Rejected message \<Rightarrow>
          s\<lparr> error := Some (Error (message_or ''Failed to fetch leads'' message)),
             isLoading := False \<rparr>
      | Succeeded items tot \<Rightarrow>
          (case transform_all rt stageOptions priorityOptions items of
             Inl e \<Rightarrow> s\<lparr> error := Some e, isLoading := False \<rparr>
           | Inr transformedLeads \<Rightarrow>
               s\<lparr> globalLeadsCache :=
                    \<lparr> data = transformedLeads, params = Some key, timestamp = now,
                      total = Some (with_default 0 tot) \<rparr>,
                  leads := transformedLeads,
                  isLoading := False \<rparr>))"

definition fetchLeads_settle ::
  "js_runtime \<Rightarrow> crm_option list \<Rightarrow> crm_option list \<Rightarrow> int \<Rightarrow> string \<Rightarrow> nat
     \<Rightarrow> fetch_outcome \<Rightarrow> dedup \<times> app_state \<Rightarrow> dedup \<times> app_state" where
  "fetchLeads_settle rt stageOptions priorityOptions now key promise outcome w =
     settle promise (fetchLeads_response rt stageOptions priorityOptions now key outcome) w"

subsection \<open>Filter operations\<close>

text \<open>\<^verbatim>\<open>splice(index, 1)\<close> on a copy: a negative index counts from the end.\<close>

definition splice_one :: "int \<Rightarrow> 'a list \<Rightarrow> 'a list" where
  "splice_one index xs =
     (let len = int (length xs);
          start = (if index < 0 then max (len + index) 0 else min index len)
      in take (nat start) xs @ drop (Suc (nat start)) xs)"

definition removeLeadFilter :: "int \<Rightarrow> app_state \<Rightarrow> app_state" where
  "removeLeadFilter index s = s\<lparr> leadFilters := splice_one index (leadFilters s) \<rparr>"

definition setLeadFilters :: "filter_option list \<Rightarrow> app_state \<Rightarrow> app_state" where
  "setLeadFilters newFilters s = s\<lparr> leadFilters := newFilters \<rparr>"

text \<open>\<^verbatim>\<open>clearLeadFilters\<close> of \<^verbatim>\<open>src/contexts/AppContext.tsx\<close>.\<close>

definition clearLeadFilters :: "app_state \<Rightarrow> app_state" where
  "clearLeadFilters s = s\<lparr> leadFilters := [] \<rparr>"

text \<open>\<^verbatim>\<open>clearLeadFilters\<close> of the other variant of the provider, \<^verbatim>\<open>src/unnamed/part_000\<close>.\<close>

definition clearLeadFilters_part_000 :: "app_state \<Rightarrow> app_state" where
  "clearLeadFilters_part_000 s = s\<lparr> leadFilters := [], globalLeadsCache := empty_cache \<rparr>"

subsection \<open>updateLead and deleteLead\<close>

text \<open>\<^verbatim>\<open>currentLead[key]\<close>, and the assignment of one property of a lead.\<close>

definition lead_get :: "string \<Rightarrow> lead \<Rightarrow> jsval" where
  "lead_get key l =
     (if key = ''id'' then lead_id l
      else if key = ''isInPipeline'' then isInPipeline l
      else if key = ''name'' then name l
      else if key = ''phone'' then phone l
      else if key = ''alternatePhone'' then alternatePhone l
      else if key = ''address'' then address l
      else if key = ''labels'' then labels l
      else if key = ''stage'' then stage l
      else if key = ''priority'' then priority l
      else if key = ''requirement'' then requirement l
      else if key = ''budget'' then budget l
      else if key = ''about'' then about l
      else if key = ''note'' then lead_note l
      else if key = ''listName'' then listName l
      else if key = ''source'' then source l
      else if key = ''customFields'' then customFields l
      else if key = ''type'' then lead_type l
      else if key = ''assignedTo'' then assignedTo l
      else if key = ''adminId'' then adminId l
      else if key = ''email'' then email l
      else if key = ''leadScore'' then leadScore l
      else if key = ''lastNote'' then lastNote l
      else if key = ''createdAt'' then createdAt l
      else if key = ''updatedAt'' then updatedAt l
      else JUndefined)"

definition lead_put :: "string \<Rightarrow> jsval \<Rightarrow> lead \<Rightarrow> lead" where
  "lead_put key v l =
     (if key = ''id'' then l\<lparr> lead_id := v \<rparr>
      else if key = ''isInPipeline'' then l\<lparr> isInPipeline := v \<rparr>
      else if key = ''name'' then l\<lparr> name := v \<rparr>
      else if key = ''phone'' then l\<lparr> phone := v \<rparr>
      else if key = ''alternatePhone'' then l\<lparr> alternatePhone := v \<rparr>
      else if key = ''address'' then l\<lparr> address := v \<rparr>
      else if key = ''labels'' then l\<lparr> labels := v \<rparr>
      else if key = ''stage'' then l\<lparr> stage := v \<rparr>
      else if key = ''priority'' then l\<lparr> priority := v \<rparr>
      else if key = ''requirement'' then l\<lparr> requirement := v \<rparr>
      else if key = ''budget'' then l\<lparr> budget := v \<rparr>
      else if key = ''about'' then l\<lparr> about := v \<rparr>
      else if key = ''note'' then l\<lparr> lead_note := v \<rparr>
      else if key = ''listName'' then l\<lparr> listName := v \<rparr>
      else if key = ''source'' then l\<lparr> source := v \<rparr>
      else if key = ''customFields'' then l\<lparr> customFields := v \<rparr>
      else if key = ''type'' then l\<lparr> lead_type := v \<rparr>
      else if key = ''assignedTo'' then l\<lparr> assignedTo := v \<rparr>
      else if key = ''adminId'' then l\<lparr> adminId := v \<rparr>
      else if key = ''email'' then l\<lparr> email := v \<rparr>
      else if key = ''leadScore'' then l\<lparr> leadScore := v \<rparr>
      else if key = ''lastNote'' then l\<lparr> lastNote := v \<rparr>
      else if key = ''createdAt'' then l\<lparr> createdAt := v \<rparr>
      else if key = ''updatedAt'' then l\<lparr> updatedAt := v \<rparr>
      else l)"

text \<open>
  A partial update \<^verbatim>\<open>Partial<Lead>\<close> is the list of its entries, its keys among the
  field names of a lead. The change test of \<^verbatim>\<open>updateLead\<close>: an array is compared by its
  serialisation, anything else by \<^verbatim>\<open>!==\<close>.
\<close>

definition differs :: "js_runtime \<Rightarrow> jsval \<Rightarrow> jsval \<Rightarrow> bool" where
  "differs rt v current =
     (case v of
        JArr xs \<Rightarrow> stringify v \<noteq> stringify current
      | _ \<Rightarrow> \<not> strict_eq rt v current)"

definition hasChanges :: "js_runtime \<Rightarrow> lead \<Rightarrow> (string \<times> jsval) list \<Rightarrow> bool" where
  "hasChanges rt currentLead leadUpdate =
     list_ex (\<lambda>(key, v). differs rt v (lead_get key currentLead)) leadUpdate"

text \<open>
  Building the wire update raises a \<^verbatim>\<open>TypeError\<close> at \<^verbatim>\<open>leadUpdate.labels.join(",")\<close>
  when \<^verbatim>\<open>labels\<close> is supplied and is not an array, or is an array with an element
  that does not convert to a string, and at \<^verbatim>\<open>leadUpdate.budget.toString()\<close> when
  \<^verbatim>\<open>budget\<close> is \<^verbatim>\<open>null\<close> or has no callable \<^verbatim>\<open>toString\<close>.
\<close>

definition update_raises :: "(string \<times> jsval) list \<Rightarrow> bool" where
  "update_raises leadUpdate =
     ((case get_prop leadUpdate ''labels'' of
         JUndefined \<Rightarrow> False
       | JArr xs \<Rightarrow> to_primitive_raises (JArr xs)
       | _ \<Rightarrow> True)
      \<or> get_prop leadUpdate ''budget'' = JNull
      \<or> to_primitive_raises (get_prop leadUpdate ''budget''))"

datatype update_step = NoChanges | Awaiting

text \<open>
  \<^verbatim>\<open>updateLead\<close> up to its \<^verbatim>\<open>await\<close>. An error is caught, recorded with
  \<^verbatim>\<open>setError\<close> and thrown again. The body of the request is logged as the update
  itself, not as the wire object built from it.
\<close>

definition updateLead ::
  "js_runtime \<Rightarrow> jsval \<Rightarrow> (string \<times> jsval) list \<Rightarrow> dedup \<times> app_state
     \<Rightarrow> (js_error + update_step) \<times> dedup \<times> app_state" where
  "updateLead rt i leadUpdate w =
     (case w of (d, s) \<Rightarrow>
        (case find (\<lambda>l. strict_eq rt (lead_id l) i) (leads s) of
           None \<Rightarrow>
             (Inl (Error ''Lead not found''), d, s\<lparr> error := Some (Error ''Lead not found'') \<rparr>)
         | Some currentLead \<Rightarrow>
             if \<not> hasChanges rt currentLead leadUpdate then (Inr NoChanges, d, s)
             else if update_raises leadUpdate
               then (Inl TypeError, d, s\<lparr> error := Some TypeError \<rparr>)
             else (Inr Awaiting, d, s\<lparr> network := network s @ [PutContact i leadUpdate] \<rparr>)))"

datatype modify_outcome = ModifyTransportFailure | ModifyResponse bool "string option"

definition merge_update :: "(string \<times> jsval) list \<Rightarrow> lead \<Rightarrow> lead" where
  "merge_update leadUpdate l = foldl (\<lambda>acc (key, v). lead_put key v acc) l leadUpdate"

text \<open>
  The rest of \<^verbatim>\<open>updateLead\<close>, run when the response arrives; \<open>nowIso\<close> is
  \<^verbatim>\<open>new Date().toISOString()\<close>.
\<close>

definition updateLead_response ::
  "js_runtime \<Rightarrow> jsval \<Rightarrow> (string \<times> jsval) list \<Rightarrow> string \<Rightarrow> modify_outcome
     \<Rightarrow> dedup \<times> app_state \<Rightarrow> dedup \<times> app_state" where
  "updateLead_response rt i leadUpdate nowIso outcome w =
     (case w of (d, s) \<Rightarrow>
        (case outcome of
           ModifyTransportFailure \<Rightarrow> (d, s\<lparr> error := Some TypeError \<rparr>)
         | ModifyResponse success message \<Rightarrow>
             if success
             then invalidateLeadsCache (strict_eq rt (activeLeadId s) i)
                    (d, s\<lparr> leads :=
                            map (\<lambda>l. if strict_eq rt (lead_id l) i
                                      then (merge_update leadUpdate l)\<lparr> updatedAt := JStr nowIso \<rparr>
                                      else l) (leads s) \<rparr>)
             else (d, s\<lparr> error := Some (Error (message_or ''Failed to update lead'' message)) \<rparr>)))"

text \<open>
  \<^verbatim>\<open>deleteLead\<close>, with the outcome of its remote call: it issues the request, and
  changes the collections only when the server confirms. A failure is reported by a
  notification, which is not part of the state.
\<close>

definition deleteLead :: "js_runtime \<Rightarrow> jsval \<Rightarrow> modify_outcome \<Rightarrow> app_state \<Rightarrow> app_state" where
  "deleteLead rt i outcome s =
     (let s0 = s\<lparr> network := network s @ [DeleteContact i] \<rparr> in
      case outcome of
        ModifyTransportFailure \<Rightarrow> s0
      | ModifyResponse success message \<Rightarrow>
          if success
          then s0\<lparr> leads := filter (\<lambda>l. \<not> strict_eq rt (lead_id l) i) (leads s),
                   todos := filter (\<lambda>t. \<not> strict_eq rt (leadId t) i) (todos s),
                   activeLeadId :=
                     (if strict_eq rt (activeLeadId s) i then JNull else activeLeadId s) \<rparr>
          else s0)"

section \<open>A runtime for the examples\<close>

text \<open>
  The examples below run the definitions on concrete inputs, and need a concrete runtime.
  Its \<^verbatim>\<open>parseInt\<close> converts its argument to a string, skips white space, reads a sign,
  the prefix \<^verbatim>\<open>0x\<close> and the digits that follow. Its collation orders strings by their
  character codes, its loose equality compares values of one primitive type, and it takes
  two object values to be two objects. Its \<^verbatim>\<open>JSON.parse\<close> knows the text \<^verbatim>\<open>{}\<close> and
  rejects every other; the examples pass it only \<^verbatim>\<open>not json\<close>, which JavaScript
  rejects too.
\<close>

fun to_string :: "jsval \<Rightarrow> string" where
  "to_string JUndefined = ''undefined''"
| "to_string JNull = ''null''"
| "to_string (JBool b) = (if b then ''true'' else ''false'')"
| "to_string (JNum NaN) = ''NaN''"
| "to_string (JNum (Fin i)) = int_to_string i"
| "to_string (JStr s) = s"
| "to_string (JArr xs) =
     join '','' (map (\<lambda>x. if x = JUndefined \<or> x = JNull then [] else to_string x) xs)"
| "to_string (JObj ps) = ''[object Object]''"

definition is_space :: "char \<Rightarrow> bool" where
  "is_space c = (c \<in> set [CHR 0x20, CHR 0x09, CHR 0x0A, CHR 0x0B, CHR 0x0C, CHR 0x0D])"

definition digit_of :: "char \<Rightarrow> nat option" where
  "digit_of c =
     (let n = (of_char c :: nat) in
      if 48 \<le> n \<and> n \<le> 57 then Some (n - 48)
      else if 97 \<le> n \<and> n \<le> 122 then Some (n - 87)
      else if 65 \<le> n \<and> n \<le> 90 then Some (n - 55)
      else None)"

fun leading_digits :: "nat \<Rightarrow> string \<Rightarrow> nat list" where
  "leading_digits r [] = []"
| "leading_digits r (c # cs) =
     (case digit_of c of
        None \<Rightarrow> []
      | Some d \<Rightarrow> if d < r then d # leading_digits r cs else [])"

fun strip_sign :: "string \<Rightarrow> bool \<times> string" where
  "strip_sign [] = (False, [])"
| "strip_sign (c # cs) =
     (if c = CHR ''-'' then (True, cs)
      else if c = CHR ''+'' then (False, cs)
      else (False, c # cs))"

fun strip_radix :: "string \<Rightarrow> nat \<times> string" where
  "strip_radix (a # b # cs) =
     (if a = CHR ''0'' \<and> (b = CHR ''x'' \<or> b = CHR ''X'') then (16, cs)
      else (10, a # b # cs))"
| "strip_radix cs = (10, cs)"

definition parseInt_string :: "string \<Rightarrow> jsnum" where
  "parseInt_string s =
     (let (neg, u) = strip_sign (dropWhile is_space s);
          (r, w) = strip_radix u;
          ds = leading_digits r w;
          n = int (foldl (\<lambda>a d. a * r + d) 0 ds)
      in if ds = [] then NaN else Fin (if neg then - n else n))"

definition example_runtime :: js_runtime where
  "example_runtime =
     \<lparr> parseInt = (\<lambda>v. parseInt_string (to_string v)),
       JSON_parse = (\<lambda>v. if v = JStr ''{}'' then Some (JObj []) else None),
       loose_eq = (\<lambda>a b. case (a, b) of
                            (JNum x, JNum y) \<Rightarrow> x = y \<and> x \<noteq> NaN
                          | (JStr x, JStr y) \<Rightarrow> x = y
                          | (JBool x, JBool y) \<Rightarrow> x = y
                          | _ \<Rightarrow> False),
       collation_key = map of_char,
       same_object = (\<lambda>a b. False) \<rparr>"

definition example_stages :: "crm_option list" where
  "example_stages =
     [\<lparr> opt_value = ''Fresh Lead'', opt_label = ''Fresh Lead'', apiValue = ''fresh'' \<rparr>,
      \<lparr> opt_value = ''Follow Up'', opt_label = ''Follow Up'', apiValue = ''follow_up'' \<rparr>]"

definition example_priorities :: "crm_option list" where
  "example_priorities =
     [\<lparr> opt_value = ''General'', opt_label = ''General'', apiValue = ''general'' \<rparr>,
      \<lparr> opt_value = ''High'', opt_label = ''High'', apiValue = ''high'' \<rparr>]"

definition example_lead :: "int \<Rightarrow> string \<Rightarrow> lead" where
  "example_lead n nm =
     \<lparr> lead_id = JNum (Fin n), isInPipeline = JBool False, name = JStr nm,
       phone = JStr ''9999999999'', alternatePhone = JStr [], address = JStr [],
       labels = JArr [JStr ''vip''], stage = JStr ''Fresh Lead'', priority = JStr ''General'',
       requirement = JStr [], budget = JNum (Fin 0), about = JStr [], lead_note = JStr [],
       listName = JStr [], source = JStr ''Other'', customFields = JObj [],
       lead_type = JStr ''lead'', assignedTo = JStr [], adminId = JNum (Fin 1),
       email = JStr [], leadScore = JNum (Fin 0), lastNote = JStr [],
       createdAt = JStr ''2024-01-01'', updatedAt = JStr ''2024-01-01'' \<rparr>"

definition example_todo :: "int \<Rightarrow> int \<Rightarrow> todo" where
  "example_todo n l =
     \<lparr> todo_id = JNum (Fin n), leadId = JNum (Fin l), todo_type = JStr ''Todo'',
       description = JStr [], responseNote = JStr [], status = JStr ''Pending'',
       dateTime = JStr ''2024-01-02'', participants = JArr [],
       todo_createdAt = JStr ''2024-01-01'', todo_updatedAt = JStr ''2024-01-01'' \<rparr>"

text \<open>Lead 7 owns the todos 3 and 4 and is the active selection; lead 8 owns todo 5.\<close>

definition example_state :: app_state where
  "example_state =
     \<lparr> leads = [example_lead 7 ''Asha'', example_lead 8 ''Ravi''],
       todos = [example_todo 3 7, example_todo 4 7, example_todo 5 8],
       leadFilters = [], todoFilters = [], activeLeadId = JNum (Fin 7),
       isLoading = False, error = None, globalLeadsCache = empty_cache,
       network = [], events = 0 \<rparr>"

text \<open>
  A wire record with an unparsable budget, an unknown stage, custom fields that are not
  JSON, a \<^verbatim>\<open>null\<close> phone and everything else missing.
\<close>

definition malformed_record :: "(string \<times> jsval) list" where
  "malformed_record =
     [(''id'', JStr ''12''), (''budget'', JStr ''n/a''), (''stage'', JStr ''Unheard Of''),
      (''custom_fields'', JStr ''not json''), (''phone'', JNull)]"

text \<open>Filters, parameters and states for the examples.\<close>

definition budget_min :: filter_option where
  "budget_min = \<lparr> field = ''budget'', operator = ''>='', fvalue = FNum 10 \<rparr>"

definition budget_max :: filter_option where
  "budget_max = \<lparr> field = ''budget'', operator = ''<='', fvalue = FNum 50 \<rparr>"

definition stage_filter :: filter_option where
  "stage_filter = \<lparr> field = ''stage'', operator = ''='', fvalue = FStr ''Fresh Lead'' \<rparr>"

text \<open>\<^verbatim>\<open>fetchLeads()\<close> and \<^verbatim>\<open>fetchLeads({})\<close>: no parameter is supplied.\<close>

definition no_params :: fetch_params where
  "no_params = \<lparr> page = None, perPage = None, sortField = None, sortOrder = None,
       search = None, currentFilters = None \<rparr>"

text \<open>The example state with one lead cached under a key at a time.\<close>

definition cached_state :: "string \<Rightarrow> int \<Rightarrow> app_state" where
  "cached_state key t =
     example_state\<lparr> globalLeadsCache :=
       \<lparr> data = [example_lead 7 ''Asha''], params = Some key, timestamp = t, total = Some 42 \<rparr> \<rparr>"

definition filtered_state :: app_state where
  "filtered_state = example_state\<lparr> leadFilters := [stage_filter, budget_min] \<rparr>"

section \<open>The parts of fetchLeads\<close>

text \<open>
  Names for what a call of \<^verbatim>\<open>fetchLeads\<close> computes on its way: the state after the
  in-place sort, the request key, the remote request, and the test for a cache hit.
  The lemmas \<open>fetchLeads_hit\<close> and \<open>fetchLeads_miss\<close> below show that \<open>fetchLeads\<close> is
  made of these.
\<close>

definition held_sorted :: "js_runtime \<Rightarrow> fetch_params \<Rightarrow> app_state \<Rightarrow> app_state" where
  "held_sorted rt ps s =
     (case currentFilters ps of
        None \<Rightarrow> s\<lparr> leadFilters := sort_filters rt (leadFilters s) \<rparr>
      | Some fs \<Rightarrow> s)"

definition fetchLeads_requestKey :: "js_runtime \<Rightarrow> fetch_params \<Rightarrow> string" where
  "fetchLeads_requestKey rt ps =
     createRequestKey ''leads''
       (params_json (ps\<lparr> currentFilters := map_option (sort_filters rt) (currentFilters ps) \<rparr>))"

definition fetchLeads_request :: "js_runtime \<Rightarrow> fetch_params \<Rightarrow> app_state \<Rightarrow> request" where
  "fetchLeads_request rt ps s =
     GetContacts (with_default 1 (page ps)) (with_default 20 (perPage ps))
       (with_default ''created_at'' (sortField ps)) (with_default ''desc'' (sortOrder ps))
       (with_default [] (search ps))
       (sort_filters rt (with_default (leadFilters s) (currentFilters ps)))"

definition cache_hit :: "js_runtime \<Rightarrow> int \<Rightarrow> fetch_params \<Rightarrow> app_state \<Rightarrow> bool" where
  "cache_hit rt now ps s \<longleftrightarrow>
     data (globalLeadsCache s) \<noteq> []
     \<and> params (globalLeadsCache s) = Some (fetchLeads_cacheKey rt ps s)
     \<and> now - timestamp (globalLeadsCache s) < 120000"

text \<open>
  A result cached for the two budget filters; a result cached for the call without
  parameters; the state after a fetch without parameters came back with an empty page.
\<close>

definition budget_cached_state :: app_state where
  "budget_cached_state =
     cached_state (fetchLeads_cacheKey example_runtime
       (no_params\<lparr> currentFilters := Some [budget_min, budget_max] \<rparr>) example_state) 0"

definition stale_state :: app_state where
  "stale_state = cached_state (fetchLeads_cacheKey example_runtime no_params example_state) 0"

definition empty_page_state :: app_state where
  "empty_page_state =
     fetchLeads_response example_runtime example_stages example_priorities 0
       (fetchLeads_cacheKey example_runtime no_params example_state) (Succeeded [] (Some 0))
       example_state"


section \<open>Properties\<close>

text \<open>
  The spec's wording of "a supplied field equals the current value": arrays by serialised
  equality, anything else by identity.
\<close>

definition unchanged_field :: "js_runtime \<Rightarrow> jsval \<Rightarrow> jsval \<Rightarrow> bool" where
  "unchanged_field rt v current =
     (case v of
        JArr xs \<Rightarrow> stringify v = stringify current
      | _ \<Rightarrow> strict_eq rt v current)"

subsection \<open>Values\<close>

lemma stringify_JObj: "stringify (JObj ps) = Some (stringify_object ps)"
  by (simp add: stringify_object_def)

lemma strict_eq_Fin: "strict_eq rt v (JNum (Fin n)) \<longleftrightarrow> v = JNum (Fin n)"
  by (cases v) auto

lemma js_or_falsy: "\<not> truthy a \<Longrightarrow> js_or a b = b"
  by (simp add: js_or_def)

lemma example_parseInt:
  "parseInt example_runtime (JStr ''n/a'') = NaN"
  "parseInt example_runtime JUndefined = NaN"
  "parseInt example_runtime (JStr ''12'') = Fin 12"
  by (simp_all add: example_runtime_def parseInt_string_def is_space_def digit_of_def)

subsection \<open>The transformer\<close>

lemma js_parseInt_ok: "\<not> to_primitive_raises v \<Longrightarrow> js_parseInt rt v = Inr (parseInt rt v)"
  by (simp add: js_parseInt_def)

lemma parse_or_zero_ok:
  "\<not> to_primitive_raises v \<Longrightarrow>
     parse_or_zero rt v = Inr (js_or (JNum (parseInt rt v)) (JNum (Fin 0)))"
  by (simp add: parse_or_zero_def js_parseInt_def)

lemma parse_or_zero_NaN: "parseInt rt v = NaN \<Longrightarrow> js_or (JNum (parseInt rt v)) (JNum (Fin 0)) = JNum (Fin 0)"
  by (simp add: js_or_def)

lemma loose_eq_number_ok:
  "\<not> to_primitive_raises v \<Longrightarrow> loose_eq_number rt v n = Inr (loose_eq rt v (JNum n))"
  by (simp add: loose_eq_number_def)

lemma split_labels_ok:
  "\<not> truthy v \<or> (\<exists>s. v = JStr s) \<Longrightarrow> \<exists>ls. split_labels v = Inr ls"
  by (auto simp: split_labels_def)

lemma split_labels_falsy: "\<not> truthy v \<Longrightarrow> split_labels v = Inr (JArr [])"
  by (simp add: split_labels_def)

lemma split_labels_raises:
  "(\<exists>e. split_labels v = Inl e) \<longleftrightarrow> truthy v \<and> (\<forall>s. v \<noteq> JStr s)"
  by (cases v) (auto simp: split_labels_def)

lemma parse_custom_fields_default:
  "\<not> truthy cf \<or> to_primitive_raises cf \<or> JSON_parse rt cf = None \<Longrightarrow>
     parse_custom_fields rt cf = JObj []"
  by (auto simp: parse_custom_fields_def)

lemma map_option_field_fallback:
  assumes "\<forall>opt \<in> set options. \<not> strict_eq rt (JStr (opt_value opt)) v
                              \<and> \<not> strict_eq rt (JStr (apiValue opt)) v"
  shows "map_option_field rt options fallback v = JStr fallback"
proof -
  have "\<not> list_ex (\<lambda>opt. strict_eq rt (JStr (opt_value opt)) v) options"
    using assms by (simp add: list_ex_iff)
  moreover have "getOptionByApiValue rt options v = None"
    using assms by (simp add: getOptionByApiValue_def find_None_iff)
  ultimately show ?thesis
    by (simp add: map_option_field_def js_or_def)
qed

text \<open>
  The transformer raises exactly when \<^verbatim>\<open>labels\<close> is truthy and not a string, or one of
  the fields it parses or compares with \<^verbatim>\<open>==\<close> does not convert to a primitive; the
  error is a \<^verbatim>\<open>TypeError\<close>.
\<close>

lemma transformApiLeadToLead_raises_iff:
  "(\<exists>e. transformApiLeadToLead rt stageOptions priorityOptions apiLead = Inl e)
   \<longleftrightarrow> (truthy (get_prop apiLead ''labels'') \<and> (\<forall>s. get_prop apiLead ''labels'' \<noteq> JStr s))
     \<or> to_primitive_raises (get_prop apiLead ''id'')
     \<or> to_primitive_raises (get_prop apiLead ''budget'')
     \<or> to_primitive_raises (get_prop apiLead ''is_in_pipeline'')
     \<or> to_primitive_raises (get_prop apiLead ''admin_id'')
     \<or> to_primitive_raises (get_prop apiLead ''lead_scrore'')"
proof -
  have l: "(\<exists>ls. split_labels (get_prop apiLead ''labels'') = Inr ls)
      \<longleftrightarrow> \<not> (truthy (get_prop apiLead ''labels'') \<and> (\<forall>s. get_prop apiLead ''labels'' \<noteq> JStr s))"
    using split_labels_raises [of "get_prop apiLead ''labels''"]
    by (cases "split_labels (get_prop apiLead ''labels'')") auto
  show ?thesis
    using l
    by (cases "split_labels (get_prop apiLead ''labels'')")
       (auto simp: transformApiLeadToLead_def js_parseInt_def parse_or_zero_def
          loose_eq_number_def)
qed

lemma transformApiLeadToLead_error:
  "transformApiLeadToLead rt stageOptions priorityOptions apiLead = Inl e \<Longrightarrow> e = TypeError"
  by (auto simp: transformApiLeadToLead_def js_parseInt_def parse_or_zero_def
      loose_eq_number_def split_labels_def split: if_splits sum.splits jsval.splits)

text \<open>
  C5, as stated, fails: a record whose \<^verbatim>\<open>labels\<close> is an array (a field of unexpected
  type) makes \<^verbatim>\<open>transformApiLeadToLead\<close> raise a \<^verbatim>\<open>TypeError\<close>, so does a record
  whose \<^verbatim>\<open>id\<close> is the object \<^verbatim>\<open>{"toString": 1}\<close>, which \<^verbatim>\<open>parseInt\<close> cannot convert
  to a string, and a record without an \<^verbatim>\<open>id\<close> gets the id \<open>NaN\<close>, not 0.
\<close>

theorem transformApiLeadToLead_counterexample:
  "transformApiLeadToLead example_runtime example_stages example_priorities
     [(''id'', JStr ''12''), (''name'', JStr ''Asha''), (''labels'', JArr [JStr ''vip''])]
     = Inl TypeError
   \<and> transformApiLeadToLead example_runtime example_stages example_priorities
     [(''id'', JObj [(''toString'', JNum (Fin 1))]), (''name'', JStr ''Asha'')]
     = Inl TypeError
   \<and> map_sum (\<lambda>e. e) lead_id
       (transformApiLeadToLead example_runtime example_stages example_priorities
          [(''name'', JStr ''Asha''), (''phone'', JStr ''9999999999'')])
     = Inr (JNum NaN)"
  by (simp add: transformApiLeadToLead_def split_labels_def get_prop_def example_runtime_def
      js_parseInt_def parse_or_zero_def loose_eq_number_def
      parseInt_string_def is_space_def digit_of_def)

text \<open>
  C5, amended: for every wire record whose \<^verbatim>\<open>labels\<close> is missing, falsy or a string,
  and whose \<^verbatim>\<open>id\<close>, \<^verbatim>\<open>budget\<close>, \<^verbatim>\<open>is_in_pipeline\<close>, \<^verbatim>\<open>admin_id\<close> and
  \<^verbatim>\<open>lead_scrore\<close> convert to a primitive (none is an object with a property
  \<^verbatim>\<open>toString\<close> of its own, or an array that holds one), \<^verbatim>\<open>transformApiLeadToLead\<close>
  returns a lead without raising, whatever else the fields hold. In that lead
  \<^verbatim>\<open>budget\<close>, \<^verbatim>\<open>adminId\<close> and \<^verbatim>\<open>leadScore\<close> are 0 when parsing fails, each of the text
  fields name, phone, alternatePhone, address, requirement, about, note, listName,
  assignedTo, email and lastNote is the empty string when its wire fields are missing or
  falsy, \<^verbatim>\<open>labels\<close> is the empty list when missing, \<^verbatim>\<open>customFields\<close> is the empty
  mapping when missing or not JSON, and an unrecognised stage or priority becomes the
  fallback. Nothing is said of \<^verbatim>\<open>id\<close>. By \<open>transformApiLeadToLead_raises_iff\<close> these
  are all the records on which the function returns.
\<close>

theorem transformApiLeadToLead_defaults:
  assumes "\<not> truthy (get_prop apiLead ''labels'') \<or> (\<exists>s. get_prop apiLead ''labels'' = JStr s)"
    and "\<forall>k \<in> set [''id'', ''budget'', ''is_in_pipeline'', ''admin_id'', ''lead_scrore''].
           \<not> to_primitive_raises (get_prop apiLead k)"
  shows "\<exists>l. transformApiLeadToLead rt stageOptions priorityOptions apiLead = Inr l
    \<and> (parseInt rt (get_prop apiLead ''budget'') = NaN \<longrightarrow> budget l = JNum (Fin 0))
    \<and> (parseInt rt (get_prop apiLead ''admin_id'') = NaN \<longrightarrow> adminId l = JNum (Fin 0))
    \<and> (parseInt rt (get_prop apiLead ''lead_scrore'') = NaN \<longrightarrow> leadScore l = JNum (Fin 0))
    \<and> (\<not> truthy (get_prop apiLead ''name'') \<longrightarrow> name l = JStr [])
    \<and> (\<not> truthy (get_prop apiLead ''phone'') \<longrightarrow> phone l = JStr [])
    \<and> (\<not> truthy (get_prop apiLead ''alter_contact'')
         \<and> \<not> truthy (get_prop apiLead ''alternative_contact_details'')
         \<and> \<not> truthy (get_prop apiLead ''alternate_phone'') \<longrightarrow> alternatePhone l = JStr [])
    \<and> (\<not> truthy (get_prop apiLead ''address'') \<longrightarrow> address l = JStr [])
    \<and> (\<not> truthy (get_prop apiLead ''requirement'') \<longrightarrow> requirement l = JStr [])
    \<and> (\<not> truthy (get_prop apiLead ''about'') \<and> \<not> truthy (get_prop apiLead ''about_him'')
         \<longrightarrow> about l = JStr [])
    \<and> (\<not> truthy (get_prop apiLead ''note'') \<longrightarrow> lead_note l = JStr [])
    \<and> (\<not> truthy (get_prop apiLead ''listname'') \<longrightarrow> listName l = JStr [])
    \<and> (\<not> truthy (get_prop apiLead ''assignd_to'') \<longrightarrow> assignedTo l = JStr [])
    \<and> (\<not> truthy (get_prop apiLead ''email'') \<longrightarrow> email l = JStr [])
    \<and> (\<not> truthy (get_prop apiLead ''last_note'') \<longrightarrow> lastNote l = JStr [])
    \<and> (\<not> truthy (get_prop apiLead ''labels'') \<longrightarrow> labels l = JArr [])
    \<and> (\<not> truthy (get_prop apiLead ''custom_fields'')
         \<or> to_primitive_raises (get_prop apiLead ''custom_fields'')
         \<or> JSON_parse rt (get_prop apiLead ''custom_fields'') = None
         \<longrightarrow> customFields l = JObj [])
    \<and> ((\<forall>opt \<in> set stageOptions.
           \<not> strict_eq rt (JStr (opt_value opt)) (get_prop apiLead ''stage'')
           \<and> \<not> strict_eq rt (JStr (apiValue opt)) (get_prop apiLead ''stage''))
         \<longrightarrow> stage l = JStr ''Fresh Lead'')
    \<and> ((\<forall>opt \<in> set priorityOptions.
           \<not> strict_eq rt (JStr (opt_value opt)) (get_prop apiLead ''priority'')
           \<and> \<not> strict_eq rt (JStr (apiValue opt)) (get_prop apiLead ''priority''))
         \<longrightarrow> priority l = JStr ''General'')"
proof -
  from split_labels_ok [OF assms(1)] obtain ls
    where ls: "split_labels (get_prop apiLead ''labels'') = Inr ls" by blast
  have lab: "\<not> truthy (get_prop apiLead ''labels'') \<longrightarrow> ls = JArr []"
    using ls by (auto simp: split_labels_falsy)
  have conv: "\<not> to_primitive_raises (get_prop apiLead ''id'')"
      "\<not> to_primitive_raises (get_prop apiLead ''budget'')"
      "\<not> to_primitive_raises (get_prop apiLead ''is_in_pipeline'')"
      "\<not> to_primitive_raises (get_prop apiLead ''admin_id'')"
      "\<not> to_primitive_raises (get_prop apiLead ''lead_scrore'')"
    using assms(2) by simp_all
  show ?thesis
    unfolding transformApiLeadToLead_def ls js_parseInt_ok [OF conv(1)]
      parse_or_zero_ok [OF conv(2)] loose_eq_number_ok [OF conv(3)]
      parse_or_zero_ok [OF conv(4)] parse_or_zero_ok [OF conv(5)]
    using lab
    by (simp add: js_or_falsy parse_or_zero_NaN parse_custom_fields_default
        map_option_field_fallback)
qed

text \<open>The amended C5 at the malformed record, whose id parses.\<close>

theorem transformApiLeadToLead_defaults_witness:
  "\<exists>l. transformApiLeadToLead example_runtime example_stages example_priorities malformed_record
          = Inr l
     \<and> lead_id l = JNum (Fin 12) \<and> budget l = JNum (Fin 0) \<and> adminId l = JNum (Fin 0)
     \<and> leadScore l = JNum (Fin 0) \<and> name l = JStr [] \<and> phone l = JStr []
     \<and> labels l = JArr [] \<and> customFields l = JObj []
     \<and> stage l = JStr ''Fresh Lead'' \<and> priority l = JStr ''General''"
proof -
  have lab: "\<not> truthy (get_prop malformed_record ''labels'')
      \<or> (\<exists>s. get_prop malformed_record ''labels'' = JStr s)"
    by (simp add: malformed_record_def get_prop_def)
  have conv: "\<forall>k \<in> set [''id'', ''budget'', ''is_in_pipeline'', ''admin_id'', ''lead_scrore''].
      \<not> to_primitive_raises (get_prop malformed_record k)"
    by (simp add: malformed_record_def get_prop_def)
  have j: "JSON_parse example_runtime (JStr ''not json'') = None"
    by (simp add: example_runtime_def)
  from transformApiLeadToLead_defaults [OF lab conv, of example_runtime example_stages
      example_priorities]
  obtain l where l: "transformApiLeadToLead example_runtime example_stages example_priorities
        malformed_record = Inr l"
    and rest: "budget l = JNum (Fin 0)" "adminId l = JNum (Fin 0)" "leadScore l = JNum (Fin 0)"
      "name l = JStr []" "phone l = JStr []" "labels l = JArr []" "customFields l = JObj []"
      "stage l = JStr ''Fresh Lead''" "priority l = JStr ''General''"
    by (auto simp: malformed_record_def get_prop_def example_parseInt j example_stages_def
        example_priorities_def)
  moreover have "lead_id l = JNum (Fin 12)"
    using l by (auto simp: transformApiLeadToLead_def malformed_record_def get_prop_def
        example_parseInt split_labels_def js_parseInt_def parse_or_zero_def loose_eq_number_def)
  ultimately show ?thesis by blast
qed

subsection \<open>updateLead\<close>

lemma differs_unchanged: "differs rt v c \<longleftrightarrow> \<not> unchanged_field rt v c"
  by (cases v) (simp_all add: differs_def unchanged_field_def)

text \<open>
  C6: when the lead with the given id is in the collection and the update is empty or
  every supplied field equals the current value of the stored lead (arrays by serialised
  equality, anything else by identity), \<^verbatim>\<open>updateLead\<close> returns at once: no request is
  added to the network log, and the leads, the cache slot, the active selection and the
  rest of the state are what they were.
\<close>

theorem updateLead_unchanged_noop:
  assumes "find (\<lambda>l. strict_eq rt (lead_id l) i) (leads s) = Some currentLead"
    and "\<forall>(key, v) \<in> set leadUpdate. unchanged_field rt v (lead_get key currentLead)"
  shows "updateLead rt i leadUpdate (d, s) = (Inr NoChanges, d, s)"
proof -
  have "\<not> hasChanges rt currentLead leadUpdate"
    using assms(2) by (auto simp: hasChanges_def list_ex_iff differs_unchanged)
  with assms(1) show ?thesis
    by (simp add: updateLead_def)
qed

text \<open>
  C6 at lead 7 with an update that repeats its name, labels and budget, and at lead 8
  with the empty update.
\<close>

theorem updateLead_unchanged_noop_witness:
  "updateLead example_runtime (JNum (Fin 7))
      [(''name'', JStr ''Asha''), (''labels'', JArr [JStr ''vip'']), (''budget'', JNum (Fin 0))]
      (empty_dedup, example_state)
    = (Inr NoChanges, empty_dedup, example_state)
   \<and> updateLead example_runtime (JNum (Fin 8)) [] (empty_dedup, example_state)
    = (Inr NoChanges, empty_dedup, example_state)"
proof -
  have f7: "find (\<lambda>l. strict_eq example_runtime (lead_id l) (JNum (Fin 7))) (leads example_state)
      = Some (example_lead 7 ''Asha'')"
    by (simp add: example_state_def example_lead_def)
  have f8: "find (\<lambda>l. strict_eq example_runtime (lead_id l) (JNum (Fin 8))) (leads example_state)
      = Some (example_lead 8 ''Ravi'')"
    by (simp add: example_state_def example_lead_def)
  have u: "\<forall>(key, v) \<in> set [(''name'', JStr ''Asha''), (''labels'', JArr [JStr ''vip'']),
                              (''budget'', JNum (Fin 0))].
             unchanged_field example_runtime v (lead_get key (example_lead 7 ''Asha''))"
    by (simp add: unchanged_field_def lead_get_def example_lead_def)
  have e: "\<forall>(key, v) \<in> set [].
             unchanged_field example_runtime v (lead_get key (example_lead 8 ''Ravi''))"
    by simp
  show ?thesis
    using updateLead_unchanged_noop [OF f7 u, of empty_dedup]
      updateLead_unchanged_noop [OF f8 e, of empty_dedup]
    by simp
qed

subsection \<open>deleteLead\<close>

text \<open>
  C7: for every lead id \<open>n\<close>, after \<^verbatim>\<open>deleteLead\<close> is confirmed by the server the leads
  hold no lead with that id and the todos no todo of that lead, they are otherwise the
  collections of before (the others kept, in their order), and the active selection is
  cleared if it was \<open>n\<close>; when the server reports failure or the transport fails, the
  leads, the todos and the active selection are what they were.
\<close>

theorem deleteLead_cascade:
  "(\<forall>l \<in> set (leads (deleteLead rt (JNum (Fin n)) (ModifyResponse True m) s)).
       lead_id l \<noteq> JNum (Fin n))
   \<and> (\<forall>t \<in> set (todos (deleteLead rt (JNum (Fin n)) (ModifyResponse True m) s)).
       leadId t \<noteq> JNum (Fin n))
   \<and> leads (deleteLead rt (JNum (Fin n)) (ModifyResponse True m) s)
       = filter (\<lambda>l. lead_id l \<noteq> JNum (Fin n)) (leads s)
   \<and> todos (deleteLead rt (JNum (Fin n)) (ModifyResponse True m) s)
       = filter (\<lambda>t. leadId t \<noteq> JNum (Fin n)) (todos s)
   \<and> activeLeadId (deleteLead rt (JNum (Fin n)) (ModifyResponse True m) s)
       = (if activeLeadId s = JNum (Fin n) then JNull else activeLeadId s)
   \<and> (\<forall>outcome \<in> {ModifyTransportFailure, ModifyResponse False m}.
        leads (deleteLead rt (JNum (Fin n)) outcome s) = leads s
        \<and> todos (deleteLead rt (JNum (Fin n)) outcome s) = todos s
        \<and> activeLeadId (deleteLead rt (JNum (Fin n)) outcome s) = activeLeadId s)"
  by (simp add: deleteLead_def strict_eq_Fin)

text \<open>
  C7 at the example of the spec: deleting lead 7, which owns the todos 3 and 4 and is
  selected.
\<close>

theorem deleteLead_cascade_witness:
  "leads (deleteLead example_runtime (JNum (Fin 7)) (ModifyResponse True None) example_state)
     = [example_lead 8 ''Ravi'']
   \<and> todos (deleteLead example_runtime (JNum (Fin 7)) (ModifyResponse True None) example_state)
     = [example_todo 5 8]
   \<and> activeLeadId
       (deleteLead example_runtime (JNum (Fin 7)) (ModifyResponse True None) example_state)
     = JNull
   \<and> leads (deleteLead example_runtime (JNum (Fin 7)) (ModifyResponse False None) example_state)
     = leads example_state"
  using deleteLead_cascade [of example_runtime 7 None example_state]
  by (simp add: example_state_def example_lead_def example_todo_def)

subsection \<open>fetchLeads: hit and miss\<close>

lemma with_default_simps [simp]:
  "with_default x None = x" "with_default x (Some y) = y"
  by (simp_all add: with_default_def)

lemma map_option_const_sorted:
  "map_option (\<lambda>fs. sort_filters rt (with_default held (currentFilters ps))) (currentFilters ps)
     = map_option (sort_filters rt) (currentFilters ps)"
  by (cases "currentFilters ps") simp_all

lemma fetchLeads_hit:
  assumes "cache_hit rt now ps s"
  shows "fetchLeads rt now ps (d, s)
    = (Cached (data (globalLeadsCache s)) (with_default 0 (total (globalLeadsCache s))), d,
       (held_sorted rt ps s)\<lparr> leads := data (globalLeadsCache s) \<rparr>)"
  using assms
  by (cases "currentFilters ps")
     (simp_all add: fetchLeads_def cache_hit_def fetchLeads_cacheKey_def held_sorted_def Let_def)

lemma fetchLeads_miss:
  assumes "\<not> cache_hit rt now ps s"
  shows "fetchLeads rt now ps (d, s)
    = (case makeRequest (fetchLeads_requestKey rt ps)
              (\<lambda>s'. s'\<lparr> isLoading := True, error := None,
                        network := network s' @ [fetchLeads_request rt ps s] \<rparr>)
              (d, held_sorted rt ps s) of
         (promise, w') \<Rightarrow> (Remote promise, w'))"
  using assms
  by (cases "currentFilters ps")
     (auto simp: fetchLeads_def cache_hit_def fetchLeads_cacheKey_def held_sorted_def Let_def
        fetchLeads_requestKey_def fetchLeads_request_def)

lemma network_held_sorted [simp]: "network (held_sorted rt ps s) = network s"
  by (simp add: held_sorted_def split: option.splits)

lemma fetchLeads_miss_cases:
  assumes "\<not> cache_hit rt now ps s"
  shows "(activeRequests d (fetchLeads_requestKey rt ps) = None \<longrightarrow>
           (\<exists>d' s'. fetchLeads rt now ps (d, s) = (Remote (next_promise d), d', s')
              \<and> network s' = network s @ [fetchLeads_request rt ps s]
              \<and> activeRequests d' (fetchLeads_requestKey rt ps) = Some (next_promise d)))
       \<and> (\<forall>p. activeRequests d (fetchLeads_requestKey rt ps) = Some p \<longrightarrow>
           fetchLeads rt now ps (d, s) = (Remote p, d, held_sorted rt ps s))"
  by (simp add: fetchLeads_miss [OF assms] makeRequest_def Let_def)

lemma stale_not_hit:
  "2 * 60 * 1000 \<le> now - timestamp (globalLeadsCache s) \<Longrightarrow> \<not> cache_hit rt now ps s"
  by (simp add: cache_hit_def)

lemma empty_not_hit: "data (globalLeadsCache s) = [] \<Longrightarrow> \<not> cache_hit rt now ps s"
  by (simp add: cache_hit_def)

lemma fetchLeads_miss_not_cached:
  assumes "\<not> cache_hit rt now ps s"
  shows "fst (fetchLeads rt now ps (d, s)) \<noteq> Cached ls t"
  by (simp add: fetchLeads_miss [OF assms] split: prod.splits)

text \<open>
  A call is served from the cache exactly when the slot is non-empty, holds the key of the
  call and is less than two minutes old.
\<close>

lemma fetchLeads_cached_iff:
  "(\<exists>ls t. fst (fetchLeads rt now ps (d, s)) = Cached ls t) \<longleftrightarrow> cache_hit rt now ps s"
proof
  assume "\<exists>ls t. fst (fetchLeads rt now ps (d, s)) = Cached ls t"
  then show "cache_hit rt now ps s"
    using fetchLeads_miss_not_cached [of rt now ps s d] by blast
next
  assume "cache_hit rt now ps s"
  then show "\<exists>ls t. fst (fetchLeads rt now ps (d, s)) = Cached ls t"
    by (simp add: fetchLeads_hit)
qed


lemma example_request:
  "leadFilters s = [] \<Longrightarrow>
     fetchLeads_request example_runtime no_params s = GetContacts 1 20 ''created_at'' ''desc'' [] []"
  by (simp add: fetchLeads_request_def no_params_def sort_filters_def)

subsection \<open>The cache key and the order of the filters\<close>

lemma sort_filters_order:
  assumes "mset fs1 = mset fs2"
    and "\<forall>k. filter (\<lambda>f. collation_key rt (field f) = k) fs1
            = filter (\<lambda>f. collation_key rt (field f) = k) fs2"
  shows "sort_filters rt fs1 = sort_filters rt fs2"
  unfolding sort_filters_def
proof (rule properties_for_sort_key)
  let ?key = "\<lambda>f. collation_key rt (field f)"
  show "mset (sort_key ?key fs2) = mset fs1"
    using assms(1) by simp
  show "sorted (map ?key (sort_key ?key fs2))"
    by simp
  fix k
  have "filter (\<lambda>x. ?key k = ?key x) (sort_key ?key fs2)
      = filter (\<lambda>x. ?key x = ?key k) (sort_key ?key fs2)"
    by (rule filter_cong) auto
  also have "\<dots> = filter (\<lambda>x. ?key x = ?key k) fs2"
    by (rule sort_key_stable)
  also have "\<dots> = filter (\<lambda>x. ?key x = ?key k) fs1"
    using assms(2) by simp
  also have "\<dots> = filter (\<lambda>x. ?key k = ?key x) fs1"
    by (rule filter_cong) auto
  finally show "filter (\<lambda>x. ?key k = ?key x) (sort_key ?key fs2)
      = filter (\<lambda>x. ?key k = ?key x) fs1" .
qed

lemma sort_ex1: "sort_filters example_runtime [stage_filter, budget_min] = [budget_min, stage_filter]"
  by (simp add: sort_filters_def stage_filter_def budget_min_def example_runtime_def)

lemma sort_ex2: "sort_filters example_runtime [budget_min, budget_max] = [budget_min, budget_max]"
  "sort_filters example_runtime [budget_max, budget_min] = [budget_max, budget_min]"
  by (simp_all add: sort_filters_def budget_max_def budget_min_def example_runtime_def)

lemma cached_state_simps [simp]:
  "data (globalLeadsCache (cached_state key t)) = [example_lead 7 ''Asha'']"
  "params (globalLeadsCache (cached_state key t)) = Some key"
  "timestamp (globalLeadsCache (cached_state key t)) = t"
  "total (globalLeadsCache (cached_state key t)) = Some 42"
  "leadFilters (cached_state key t) = []"
  "network (cached_state key t) = []"
  by (simp_all add: cached_state_def example_state_def)

lemma fetchLeads_cacheKey_explicit:
  "currentFilters ps \<noteq> None \<Longrightarrow> fetchLeads_cacheKey rt ps s = fetchLeads_cacheKey rt ps s'"
  by (auto simp: fetchLeads_cacheKey_def)

lemma fetchLeads_cacheKey_held:
  "leadFilters s = leadFilters s' \<Longrightarrow> fetchLeads_cacheKey rt ps s = fetchLeads_cacheKey rt ps s'"
  by (cases "currentFilters ps") (auto simp: fetchLeads_cacheKey_def)


text \<open>
  C1, as stated, fails: the sort compares the field names only and is stable, so two
  filters on the same field stay in the order they came in. The filters
  \<^verbatim>\<open>budget >= 10\<close> and \<^verbatim>\<open>budget <= 50\<close> in their two orders are the same multiset and
  give two cache keys; a result cached under one order is a miss for the other.
\<close>

theorem cacheKey_filter_order_counterexample:
  "mset [budget_min, budget_max] = mset [budget_max, budget_min]
   \<and> fetchLeads_cacheKey example_runtime
        (no_params\<lparr> currentFilters := Some [budget_min, budget_max] \<rparr>) example_state
     \<noteq> fetchLeads_cacheKey example_runtime
        (no_params\<lparr> currentFilters := Some [budget_max, budget_min] \<rparr>) example_state
   \<and> fst (fetchLeads example_runtime 60000
        (no_params\<lparr> currentFilters := Some [budget_min, budget_max] \<rparr>)
        (empty_dedup, budget_cached_state)) = Cached [example_lead 7 ''Asha''] 42
   \<and> fst (fetchLeads example_runtime 60000
        (no_params\<lparr> currentFilters := Some [budget_max, budget_min] \<rparr>)
        (empty_dedup, budget_cached_state)) = Remote 0"
proof -
  let ?p1 = "no_params\<lparr> currentFilters := Some [budget_min, budget_max] \<rparr>"
  let ?p2 = "no_params\<lparr> currentFilters := Some [budget_max, budget_min] \<rparr>"
  have neq: "fetchLeads_cacheKey example_runtime ?p1 example_state
      \<noteq> fetchLeads_cacheKey example_runtime ?p2 example_state"
    by code_simp
  have k1: "fetchLeads_cacheKey example_runtime ?p1 budget_cached_state
      = fetchLeads_cacheKey example_runtime ?p1 example_state"
    and k2: "fetchLeads_cacheKey example_runtime ?p2 budget_cached_state
      = fetchLeads_cacheKey example_runtime ?p2 example_state"
    by (simp_all add: fetchLeads_cacheKey_explicit [of _ _ budget_cached_state example_state])
  have hit: "cache_hit example_runtime 60000 ?p1 budget_cached_state"
    unfolding cache_hit_def k1 by (simp add: budget_cached_state_def)
  have miss: "\<not> cache_hit example_runtime 60000 ?p2 budget_cached_state"
    unfolding cache_hit_def k2 using neq by (simp add: budget_cached_state_def)
  have "mset [budget_min, budget_max] = mset [budget_max, budget_min]"
    by (simp add: add.commute)
  moreover have "fst (fetchLeads example_runtime 60000 ?p1 (empty_dedup, budget_cached_state))
      = Cached [example_lead 7 ''Asha''] 42"
    unfolding fetchLeads_hit [OF hit] by (simp add: budget_cached_state_def)
  moreover have "fst (fetchLeads example_runtime 60000 ?p2 (empty_dedup, budget_cached_state))
      = Remote 0"
    unfolding fetchLeads_miss [OF miss] by (simp add: makeRequest_def empty_dedup_def)
  ultimately show ?thesis using neq by blast
qed


text \<open>
  C1, amended: for every two query-parameter sets that are equal except for the order of
  the filters list (the same multiset of filters), and in which the filters whose field
  names collate equal come in the same relative order (as they do when no two filters
  have field names that collate equal), the cache key computed by \<^verbatim>\<open>fetchLeads\<close> is the same
  string, so a result that is a cache hit for one parameter set is a cache hit for the
  other.
\<close>

theorem cacheKey_filter_order:
  assumes "mset fs1 = mset fs2"
    and "\<forall>k. filter (\<lambda>f. collation_key rt (field f) = k) fs1
            = filter (\<lambda>f. collation_key rt (field f) = k) fs2"
  shows "fetchLeads_cacheKey rt (ps\<lparr> currentFilters := Some fs1 \<rparr>) s
       = fetchLeads_cacheKey rt (ps\<lparr> currentFilters := Some fs2 \<rparr>) s
     \<and> (cache_hit rt now (ps\<lparr> currentFilters := Some fs1 \<rparr>) s \<longrightarrow>
          fetchLeads rt now (ps\<lparr> currentFilters := Some fs2 \<rparr>) (d, s)
          = (Cached (data (globalLeadsCache s)) (with_default 0 (total (globalLeadsCache s))), d,
             s\<lparr> leads := data (globalLeadsCache s) \<rparr>))"
proof -
  have k: "fetchLeads_cacheKey rt (ps\<lparr> currentFilters := Some fs1 \<rparr>) s
       = fetchLeads_cacheKey rt (ps\<lparr> currentFilters := Some fs2 \<rparr>) s"
    using sort_filters_order [OF assms] by (simp add: fetchLeads_cacheKey_def)
  have "cache_hit rt now (ps\<lparr> currentFilters := Some fs2 \<rparr>) s"
    if "cache_hit rt now (ps\<lparr> currentFilters := Some fs1 \<rparr>) s"
    using that k by (simp add: cache_hit_def)
  then show ?thesis
    using k fetchLeads_hit [of rt now "ps\<lparr> currentFilters := Some fs2 \<rparr>" s d]
    by (auto simp: held_sorted_def)
qed


text \<open>The amended C1 at a stage filter and a budget filter in their two orders.\<close>

theorem cacheKey_filter_order_witness:
  "fetchLeads_cacheKey example_runtime
        (no_params\<lparr> currentFilters := Some [stage_filter, budget_min] \<rparr>) example_state
     = fetchLeads_cacheKey example_runtime
        (no_params\<lparr> currentFilters := Some [budget_min, stage_filter] \<rparr>) example_state"
proof -
  have m: "mset [stage_filter, budget_min] = mset [budget_min, stage_filter]"
    by (simp add: add.commute)
  have o: "\<forall>k. filter (\<lambda>f. collation_key example_runtime (field f) = k) [stage_filter, budget_min]
      = filter (\<lambda>f. collation_key example_runtime (field f) = k) [budget_min, stage_filter]"
    by (auto simp: stage_filter_def budget_min_def example_runtime_def)
  show ?thesis
    using cacheKey_filter_order [OF m o, of no_params example_state] by simp
qed


subsection \<open>The freshness window\<close>

lemma stale_state_key:
  "params (globalLeadsCache stale_state) = Some (fetchLeads_cacheKey example_runtime no_params stale_state)"
proof -
  have "leadFilters stale_state = leadFilters example_state"
    by (simp add: stale_state_def example_state_def)
  from fetchLeads_cacheKey_held [OF this] show ?thesis
    by (simp add: stale_state_def)
qed


text \<open>
  C2, as stated, fails in its second half: when the request key of the call is registered
  in \<^verbatim>\<open>activeRequests\<close>, the call whose cache entry is stale misses the cache and gets
  the promise registered under the key; it issues no remote request of its own. Here the
  entry was stored at time 0, a first call at 120000 started a request and registered the
  key, and a second call at 120001 leaves the state, network log included, as it was.
\<close>

theorem fetchLeads_stale_miss_counterexample:
  "params (globalLeadsCache stale_state)
      = Some (fetchLeads_cacheKey example_runtime no_params stale_state)
   \<and> 2 * 60 * 1000 \<le> 120001 - timestamp (globalLeadsCache stale_state)
   \<and> fetchLeads example_runtime 120001 no_params
        (snd (fetchLeads example_runtime 120000 no_params (empty_dedup, stale_state)))
     = (Remote 0, snd (fetchLeads example_runtime 120000 no_params (empty_dedup, stale_state)))"
proof -
  have m0: "\<not> cache_hit example_runtime 120000 no_params stale_state"
    by (rule stale_not_hit) (simp add: stale_state_def)
  let ?s1 = "(held_sorted example_runtime no_params stale_state)
      \<lparr> isLoading := True, error := None,
        network := network (held_sorted example_runtime no_params stale_state)
            @ [fetchLeads_request example_runtime no_params stale_state] \<rparr>"
  let ?d1 = "empty_dedup\<lparr> activeRequests :=
        (activeRequests empty_dedup)(fetchLeads_requestKey example_runtime no_params \<mapsto> 0),
      pending := (pending empty_dedup)(0 \<mapsto> fetchLeads_requestKey example_runtime no_params),
      next_promise := Suc 0,
      started := started empty_dedup @ [(fetchLeads_requestKey example_runtime no_params, 0)] \<rparr>"
  have first: "fetchLeads example_runtime 120000 no_params (empty_dedup, stale_state)
      = (Remote 0, ?d1, ?s1)"
    by (simp add: fetchLeads_miss [OF m0] makeRequest_def empty_dedup_def)
  have m1: "\<not> cache_hit example_runtime 120001 no_params ?s1"
    by (rule stale_not_hit) (simp add: stale_state_def held_sorted_def no_params_def)
  have hs: "held_sorted example_runtime no_params ?s1 = ?s1"
    by (simp add: held_sorted_def no_params_def stale_state_def sort_filters_def)
  have second: "fetchLeads example_runtime 120001 no_params (?d1, ?s1) = (Remote 0, ?d1, ?s1)"
    using fetchLeads_miss_cases [OF m1, of ?d1] hs by simp
  show ?thesis
    using stale_state_key first second by (simp add: stale_state_def)
qed

text \<open>
  C2, amended: for every stored cache entry, a \<^verbatim>\<open>fetchLeads\<close> call made 2 minutes or
  more after the entry was stored is not served from the cache, whatever its key. If its
  request key is not registered in the map \<^verbatim>\<open>activeRequests\<close>, it issues a remote
  request and registers its promise under the key; if the key is registered there, it
  receives the promise registered under it and issues no request. (Registered is what
  \<^verbatim>\<open>makeRequest\<close> tests; a request that is pending while \<^verbatim>\<open>invalidateLeadsCache\<close>
  has cleared the map is not registered.)
\<close>

theorem fetchLeads_stale_miss:
  assumes "2 * 60 * 1000 \<le> now - timestamp (globalLeadsCache s)"
  shows "(\<forall>ls t. fst (fetchLeads rt now ps (d, s)) \<noteq> Cached ls t)
     \<and> (activeRequests d (fetchLeads_requestKey rt ps) = None \<longrightarrow>
           (\<exists>d' s'. fetchLeads rt now ps (d, s) = (Remote (next_promise d), d', s')
              \<and> network s' = network s @ [fetchLeads_request rt ps s]
              \<and> activeRequests d' (fetchLeads_requestKey rt ps) = Some (next_promise d)))
     \<and> (\<forall>p. activeRequests d (fetchLeads_requestKey rt ps) = Some p \<longrightarrow>
           fetchLeads rt now ps (d, s) = (Remote p, d, held_sorted rt ps s)
           \<and> network (held_sorted rt ps s) = network s)"
  using fetchLeads_miss_cases [OF stale_not_hit [OF assms]]
    fetchLeads_miss_not_cached [OF stale_not_hit [OF assms]]
  by simp


text \<open>
  The amended C2 at an entry stored at time 0 under the key of the call: a hit at 119999,
  a miss and one remote request at 120000.
\<close>

theorem fetchLeads_stale_miss_witness:
  "params (globalLeadsCache stale_state)
      = Some (fetchLeads_cacheKey example_runtime no_params stale_state)
   \<and> fst (fetchLeads example_runtime 119999 no_params (empty_dedup, stale_state))
      = Cached [example_lead 7 ''Asha''] 42
   \<and> fst (fetchLeads example_runtime 120000 no_params (empty_dedup, stale_state)) = Remote 0
   \<and> network (snd (snd (fetchLeads example_runtime 120000 no_params (empty_dedup, stale_state))))
      = [GetContacts 1 20 ''created_at'' ''desc'' [] []]"
proof -
  have old: "2 * 60 * 1000 \<le> 120000 - timestamp (globalLeadsCache stale_state)"
    by (simp add: stale_state_def)
  have free: "activeRequests empty_dedup (fetchLeads_requestKey example_runtime no_params) = None"
    by (simp add: empty_dedup_def)
  have hit: "cache_hit example_runtime 119999 no_params stale_state"
    unfolding cache_hit_def using stale_state_key by (simp add: stale_state_def)
  have req: "fetchLeads_request example_runtime no_params stale_state
      = GetContacts 1 20 ''created_at'' ''desc'' [] []"
    by (simp add: fetchLeads_request_def no_params_def stale_state_def sort_filters_def)
  from fetchLeads_stale_miss [OF old, of example_runtime no_params empty_dedup] free
  obtain d' s' where
    "fetchLeads example_runtime 120000 no_params (empty_dedup, stale_state)
       = (Remote (next_promise empty_dedup), d', s')"
    "network s' = network stale_state @ [fetchLeads_request example_runtime no_params stale_state]"
    by blast
  then show ?thesis
    using stale_state_key fetchLeads_hit [OF hit, of empty_dedup] req
    by (simp add: empty_dedup_def stale_state_def)
qed


text \<open>
  Registered and pending are not the same. After a first call, whose request is pending,
  \<^verbatim>\<open>invalidateLeadsCache\<close> clears the map; the next call then finds its key not
  registered, issues a second request and receives a second promise.
\<close>

lemma fetchLeads_after_invalidate_example:
  "fst (fetchLeads example_runtime 120001 no_params
         (invalidateLeadsCache False
           (snd (fetchLeads example_runtime 120000 no_params (empty_dedup, stale_state)))))
     = Remote 1
   \<and> network (snd (snd (fetchLeads example_runtime 120001 no_params
         (invalidateLeadsCache False
           (snd (fetchLeads example_runtime 120000 no_params (empty_dedup, stale_state)))))))
     = [GetContacts 1 20 ''created_at'' ''desc'' [] [],
        GetContacts 1 20 ''created_at'' ''desc'' [] []]"
proof -
  let ?r = "GetContacts 1 20 ''created_at'' ''desc'' [] []"
  have m0: "\<not> cache_hit example_runtime 120000 no_params stale_state"
    by (rule stale_not_hit) (simp add: stale_state_def)
  have r0: "fetchLeads_request example_runtime no_params stale_state = ?r"
    by (rule example_request) (simp add: stale_state_def)
  let ?s1 = "(held_sorted example_runtime no_params stale_state)
      \<lparr> isLoading := True, error := None,
        network := network (held_sorted example_runtime no_params stale_state) @ [?r] \<rparr>"
  let ?d1 = "empty_dedup\<lparr> activeRequests :=
        (activeRequests empty_dedup)(fetchLeads_requestKey example_runtime no_params \<mapsto> 0),
      pending := (pending empty_dedup)(0 \<mapsto> fetchLeads_requestKey example_runtime no_params),
      next_promise := Suc 0,
      started := started empty_dedup @ [(fetchLeads_requestKey example_runtime no_params, 0)] \<rparr>"
  have first: "fetchLeads example_runtime 120000 no_params (empty_dedup, stale_state)
      = (Remote 0, ?d1, ?s1)"
    by (simp add: fetchLeads_miss [OF m0] makeRequest_def empty_dedup_def r0)
  let ?d2 = "?d1\<lparr> activeRequests := Map.empty \<rparr>"
  let ?s2 = "?s1\<lparr> globalLeadsCache := empty_cache, events := Suc (events ?s1) \<rparr>"
  have inv: "invalidateLeadsCache False
      (snd (fetchLeads example_runtime 120000 no_params (empty_dedup, stale_state))) = (?d2, ?s2)"
    unfolding first by (simp add: invalidateLeadsCache_def)
  have m2: "\<not> cache_hit example_runtime 120001 no_params ?s2"
    by (rule empty_not_hit) (simp add: empty_cache_def)
  have f2: "leadFilters ?s2 = []"
    by (simp add: held_sorted_def no_params_def stale_state_def sort_filters_def)
  have r2: "fetchLeads_request example_runtime no_params ?s2 = ?r"
    by (rule example_request) (rule f2)
  have free: "activeRequests ?d2 (fetchLeads_requestKey example_runtime no_params) = None"
    by simp
  from fetchLeads_miss_cases [OF m2, of ?d2] free
  obtain d' s' where
    "fetchLeads example_runtime 120001 no_params (?d2, ?s2) = (Remote (next_promise ?d2), d', s')"
    "network s' = network ?s2 @ [fetchLeads_request example_runtime no_params ?s2]"
    by blast
  moreover have "network ?s2 = [?r]"
    by (simp add: stale_state_def)
  ultimately show ?thesis
    unfolding inv r2 by simp
qed

subsection \<open>An empty page is never served from the cache\<close>

lemma fetchLeads_response_empty:
  "globalLeadsCache (fetchLeads_response rt so po t0 key (Succeeded [] tot) s0)
     = \<lparr> data = [], params = Some key, timestamp = t0, total = Some (with_default 0 tot) \<rparr>"
  "network (fetchLeads_response rt so po t0 key outcome s0) = network s0"
  "leadFilters (fetchLeads_response rt so po t0 key outcome s0) = leadFilters s0"
  by (simp_all add: fetchLeads_response_def split: fetch_outcome.splits sum.splits)

lemma empty_page_state_simps:
  "leadFilters empty_page_state = []" "network empty_page_state = []"
  "data (globalLeadsCache empty_page_state) = []"
  "timestamp (globalLeadsCache empty_page_state) = 0"
  by (simp_all add: empty_page_state_def fetchLeads_response_empty example_state_def)


text \<open>
  C10, as stated, fails in its last part, for the reason C2 does: the second of two
  repeated calls, made while the first is pending and its request key is registered in
  \<^verbatim>\<open>activeRequests\<close>, misses the cache and receives the promise of the first, without a
  remote request of its own.
\<close>

theorem fetchLeads_empty_page_miss_counterexample:
  "params (globalLeadsCache empty_page_state)
      = Some (fetchLeads_cacheKey example_runtime no_params empty_page_state)
   \<and> 2000 - timestamp (globalLeadsCache empty_page_state) < 2 * 60 * 1000
   \<and> fetchLeads example_runtime 2000 no_params
        (snd (fetchLeads example_runtime 1000 no_params (empty_dedup, empty_page_state)))
     = (Remote 0, snd (fetchLeads example_runtime 1000 no_params (empty_dedup, empty_page_state)))"
proof -
  have k: "fetchLeads_cacheKey example_runtime no_params empty_page_state
      = fetchLeads_cacheKey example_runtime no_params example_state"
    by (rule fetchLeads_cacheKey_held) (simp add: empty_page_state_simps example_state_def)
  have p: "params (globalLeadsCache empty_page_state)
      = Some (fetchLeads_cacheKey example_runtime no_params empty_page_state)"
    unfolding k by (simp add: empty_page_state_def fetchLeads_response_empty)
  have m0: "\<not> cache_hit example_runtime 1000 no_params empty_page_state"
    by (rule empty_not_hit) (simp add: empty_page_state_simps)
  let ?s1 = "(held_sorted example_runtime no_params empty_page_state)
      \<lparr> isLoading := True, error := None,
        network := network (held_sorted example_runtime no_params empty_page_state)
            @ [fetchLeads_request example_runtime no_params empty_page_state] \<rparr>"
  let ?d1 = "empty_dedup\<lparr> activeRequests :=
        (activeRequests empty_dedup)(fetchLeads_requestKey example_runtime no_params \<mapsto> 0),
      pending := (pending empty_dedup)(0 \<mapsto> fetchLeads_requestKey example_runtime no_params),
      next_promise := Suc 0,
      started := started empty_dedup @ [(fetchLeads_requestKey example_runtime no_params, 0)] \<rparr>"
  have first: "fetchLeads example_runtime 1000 no_params (empty_dedup, empty_page_state)
      = (Remote 0, ?d1, ?s1)"
    by (simp add: fetchLeads_miss [OF m0] makeRequest_def empty_dedup_def)
  have m1: "\<not> cache_hit example_runtime 2000 no_params ?s1"
    by (rule empty_not_hit) (simp add: empty_page_state_simps held_sorted_def no_params_def)
  have hs: "held_sorted example_runtime no_params ?s1 = ?s1"
    by (simp add: held_sorted_def no_params_def empty_page_state_simps sort_filters_def)
  have second: "fetchLeads example_runtime 2000 no_params (?d1, ?s1) = (Remote 0, ?d1, ?s1)"
    using fetchLeads_miss_cases [OF m1, of ?d1] hs by simp
  show ?thesis
    using p first second by (simp add: empty_page_state_simps)
qed


text \<open>
  C10, amended: a cache hit requires the stored result list to be non-empty. A
  successful fetch that returned an empty page stores the key and the time of that fetch
  and an empty list, and as long as the slot holds that entry a call of \<^verbatim>\<open>fetchLeads\<close>,
  also one with identical parameters within the 2 minutes, is not served from the cache.
  If its request key is not registered in the map \<^verbatim>\<open>activeRequests\<close>, it issues a new
  remote request and registers its promise under the key; if the key is registered
  there, it receives the promise registered under it and issues no request.
\<close>

theorem fetchLeads_empty_page_miss:
  assumes "globalLeadsCache s
      = globalLeadsCache
          (fetchLeads_response rt stageOptions priorityOptions t0 key (Succeeded [] tot) s0)"
  shows "data (globalLeadsCache s) = [] \<and> params (globalLeadsCache s) = Some key
     \<and> timestamp (globalLeadsCache s) = t0
     \<and> (\<forall>ls t. fst (fetchLeads rt now ps (d, s)) \<noteq> Cached ls t)
     \<and> (activeRequests d (fetchLeads_requestKey rt ps) = None \<longrightarrow>
           (\<exists>d' s'. fetchLeads rt now ps (d, s) = (Remote (next_promise d), d', s')
              \<and> network s' = network s @ [fetchLeads_request rt ps s]
              \<and> activeRequests d' (fetchLeads_requestKey rt ps) = Some (next_promise d)))
     \<and> (\<forall>p. activeRequests d (fetchLeads_requestKey rt ps) = Some p \<longrightarrow>
           fetchLeads rt now ps (d, s) = (Remote p, d, held_sorted rt ps s)
           \<and> network (held_sorted rt ps s) = network s)"
proof -
  have g: "globalLeadsCache s
      = \<lparr> data = [], params = Some key, timestamp = t0, total = Some (with_default 0 tot) \<rparr>"
    by (simp add: assms fetchLeads_response_empty)
  have e: "data (globalLeadsCache s) = []"
    by (simp add: g)
  show ?thesis
    using fetchLeads_miss_cases [OF empty_not_hit [OF e]]
      fetchLeads_miss_not_cached [OF empty_not_hit [OF e]]
    by (simp add: g)
qed


text \<open>
  The amended C10 one second after an empty page was stored under the key of the call.
\<close>

theorem fetchLeads_empty_page_miss_witness:
  "params (globalLeadsCache empty_page_state)
      = Some (fetchLeads_cacheKey example_runtime no_params empty_page_state)
   \<and> 1000 - timestamp (globalLeadsCache empty_page_state) < 2 * 60 * 1000
   \<and> fst (fetchLeads example_runtime 1000 no_params (empty_dedup, empty_page_state)) = Remote 0
   \<and> network (snd (snd (fetchLeads example_runtime 1000 no_params (empty_dedup, empty_page_state))))
      = [GetContacts 1 20 ''created_at'' ''desc'' [] []]"
proof -
  have k: "fetchLeads_cacheKey example_runtime no_params empty_page_state
      = fetchLeads_cacheKey example_runtime no_params example_state"
    by (rule fetchLeads_cacheKey_held) (simp add: empty_page_state_simps example_state_def)
  have free: "activeRequests empty_dedup (fetchLeads_requestKey example_runtime no_params) = None"
    by (simp add: empty_dedup_def)
  have slot: "globalLeadsCache empty_page_state
      = globalLeadsCache
          (fetchLeads_response example_runtime example_stages example_priorities 0
            (fetchLeads_cacheKey example_runtime no_params example_state) (Succeeded [] (Some 0))
            example_state)"
    by (simp add: empty_page_state_def)
  from fetchLeads_empty_page_miss [OF slot, of 1000 no_params empty_dedup] free
  obtain d' s' where
    "params (globalLeadsCache empty_page_state)
       = Some (fetchLeads_cacheKey example_runtime no_params example_state)"
    "fetchLeads example_runtime 1000 no_params (empty_dedup, empty_page_state)
       = (Remote (next_promise empty_dedup), d', s')"
    "network s' = network empty_page_state
        @ [fetchLeads_request example_runtime no_params empty_page_state]"
    by blast
  then show ?thesis
    by (simp add: k empty_dedup_def empty_page_state_simps example_request)
qed


subsection \<open>Clearing the filters\<close>

text \<open>
  The variant of \<^verbatim>\<open>src/unnamed/part_000\<close> does what C8 says: it empties the filter list
  and resets the slot, and the next call is not served from the cache.
\<close>

lemma clearLeadFilters_part_000_miss:
  "leadFilters (clearLeadFilters_part_000 s) = []
   \<and> globalLeadsCache (clearLeadFilters_part_000 s) = empty_cache
   \<and> fst (fetchLeads rt now ps (d, clearLeadFilters_part_000 s)) \<noteq> Cached ls t"
proof -
  have "data (globalLeadsCache (clearLeadFilters_part_000 s)) = []"
    by (simp add: clearLeadFilters_part_000_def empty_cache_def)
  from fetchLeads_miss_not_cached [OF empty_not_hit [OF this]] show ?thesis
    by (simp add: clearLeadFilters_part_000_def)
qed


text \<open>
  C8 on \<^verbatim>\<open>src/contexts/AppContext.tsx\<close>: \<^verbatim>\<open>clearLeadFilters\<close> empties the filter list
  and leaves the cache slot alone. With a result cached for the call without filters and
  one filter held, clearing the filters and calling \<^verbatim>\<open>fetchLeads()\<close> one minute later
  is served from the cache, and no remote request is issued.
\<close>

theorem clearLeadFilters_keeps_cache:
  "leadFilters (stale_state\<lparr> leadFilters := [stage_filter] \<rparr>) = [stage_filter]
   \<and> leadFilters (clearLeadFilters (stale_state\<lparr> leadFilters := [stage_filter] \<rparr>)) = []
   \<and> globalLeadsCache (clearLeadFilters (stale_state\<lparr> leadFilters := [stage_filter] \<rparr>))
      = globalLeadsCache stale_state
   \<and> globalLeadsCache stale_state \<noteq> empty_cache
   \<and> fst (fetchLeads example_runtime 60000 no_params
        (empty_dedup, clearLeadFilters (stale_state\<lparr> leadFilters := [stage_filter] \<rparr>)))
      = Cached [example_lead 7 ''Asha''] 42
   \<and> network (snd (snd (fetchLeads example_runtime 60000 no_params
        (empty_dedup, clearLeadFilters (stale_state\<lparr> leadFilters := [stage_filter] \<rparr>)))))
      = []"
proof -
  let ?s = "clearLeadFilters (stale_state\<lparr> leadFilters := [stage_filter] \<rparr>)"
  have k: "fetchLeads_cacheKey example_runtime no_params ?s
      = fetchLeads_cacheKey example_runtime no_params example_state"
    by (rule fetchLeads_cacheKey_held) (simp add: clearLeadFilters_def example_state_def)
  have hit: "cache_hit example_runtime 60000 no_params ?s"
    unfolding cache_hit_def k by (simp add: clearLeadFilters_def stale_state_def)
  have ne: "globalLeadsCache stale_state \<noteq> empty_cache"
    by (simp add: stale_state_def cached_state_def empty_cache_def)
  show ?thesis
    unfolding fetchLeads_hit [OF hit]
    using ne by (simp add: clearLeadFilters_def stale_state_def held_sorted_def no_params_def)
qed


subsection \<open>The held filter list is sorted in place\<close>

lemma fetchLeads_leadFilters:
  "leadFilters (snd (snd (fetchLeads rt now ps (d, s))))
     = (case currentFilters ps of
          None \<Rightarrow> sort_filters rt (leadFilters s)
        | Some fs \<Rightarrow> leadFilters s)"
proof (cases "cache_hit rt now ps s")
  case True
  then show ?thesis
    by (simp add: fetchLeads_hit held_sorted_def split: option.splits)
next
  case False
  then show ?thesis
    by (simp add: fetchLeads_miss makeRequest_def held_sorted_def Let_def split: option.splits)
qed


text \<open>
  C9 fails on the code: \<^verbatim>\<open>fetchLeads()\<close> sorts the held filter list in place while it
  computes the cache key. With the stage filter appended first and the budget filter
  second, the list holds the budget filter first after the call, and
  \<^verbatim>\<open>removeLeadFilter(0)\<close> then removes the budget filter, not the stage filter that was
  appended at position 0.
\<close>

theorem fetchLeads_sorts_held_filters:
  "leadFilters filtered_state = [stage_filter, budget_min]
   \<and> leadFilters (snd (snd (fetchLeads example_runtime 0 no_params (empty_dedup, filtered_state))))
      = [budget_min, stage_filter]
   \<and> leadFilters (removeLeadFilter 0 filtered_state) = [budget_min]
   \<and> leadFilters (removeLeadFilter 0
        (snd (snd (fetchLeads example_runtime 0 no_params (empty_dedup, filtered_state)))))
      = [stage_filter]"
  by (simp add: fetchLeads_leadFilters no_params_def filtered_state_def sort_ex1
      removeLeadFilter_def splice_one_def)


subsection \<open>The request key\<close>

lemma key_page: "fetchLeads_requestKey example_runtime no_params
     \<noteq> fetchLeads_requestKey example_runtime (no_params\<lparr> page := Some 1 \<rparr>)"
  by code_simp


text \<open>
  C4 fails on the code in both directions: the request key serialises the \<^verbatim>\<open>params\<close>
  object as the caller passed it, not the effective parameters. \<^verbatim>\<open>fetchLeads({})\<close> and
  \<^verbatim>\<open>fetchLeads({page: 1})\<close> are the same logical request and have two keys. And
  \<^verbatim>\<open>fetchLeads()\<close> has the key \<^verbatim>\<open>leads-{}\<close> whatever filters are held: a call made
  after the held filters were replaced, while a call for the old filters is in flight,
  gets the promise of the old request, and no request for the new filters is issued.
\<close>

theorem requestKey_ignores_effective_parameters:
  "fetchLeads_request example_runtime no_params example_state
      = fetchLeads_request example_runtime (no_params\<lparr> page := Some 1 \<rparr>) example_state
   \<and> fetchLeads_requestKey example_runtime no_params
      \<noteq> fetchLeads_requestKey example_runtime (no_params\<lparr> page := Some 1 \<rparr>)
   \<and> fetchLeads_request example_runtime no_params filtered_state
      \<noteq> fetchLeads_request example_runtime no_params example_state
   \<and> fst (fetchLeads example_runtime 0 no_params (empty_dedup, filtered_state)) = Remote 0
   \<and> fst (fetchLeads example_runtime 1 no_params
        (fst (snd (fetchLeads example_runtime 0 no_params (empty_dedup, filtered_state))),
         setLeadFilters []
           (snd (snd (fetchLeads example_runtime 0 no_params (empty_dedup, filtered_state))))))
      = Remote 0
   \<and> network (snd (snd (fetchLeads example_runtime 1 no_params
        (fst (snd (fetchLeads example_runtime 0 no_params (empty_dedup, filtered_state))),
         setLeadFilters []
           (snd (snd (fetchLeads example_runtime 0 no_params (empty_dedup, filtered_state))))))))
      = [GetContacts 1 20 ''created_at'' ''desc'' [] [budget_min, stage_filter]]"
proof -
  have m0: "\<not> cache_hit example_runtime 0 no_params filtered_state"
    by (rule empty_not_hit) (simp add: filtered_state_def example_state_def empty_cache_def)
  let ?r = "GetContacts 1 20 ''created_at'' ''desc'' [] [budget_min, stage_filter]"
  have r: "fetchLeads_request example_runtime no_params filtered_state = ?r"
    by (simp add: fetchLeads_request_def no_params_def filtered_state_def sort_ex1)
  let ?s1 = "(held_sorted example_runtime no_params filtered_state)
      \<lparr> isLoading := True, error := None,
        network := network (held_sorted example_runtime no_params filtered_state) @ [?r] \<rparr>"
  let ?d1 = "empty_dedup\<lparr> activeRequests :=
        (activeRequests empty_dedup)(fetchLeads_requestKey example_runtime no_params \<mapsto> 0),
      pending := (pending empty_dedup)(0 \<mapsto> fetchLeads_requestKey example_runtime no_params),
      next_promise := Suc 0,
      started := started empty_dedup @ [(fetchLeads_requestKey example_runtime no_params, 0)] \<rparr>"
  have first: "fetchLeads example_runtime 0 no_params (empty_dedup, filtered_state)
      = (Remote 0, ?d1, ?s1)"
    by (simp add: fetchLeads_miss [OF m0] makeRequest_def empty_dedup_def r)
  have m1: "\<not> cache_hit example_runtime 1 no_params (setLeadFilters [] ?s1)"
    by (rule empty_not_hit)
      (simp add: setLeadFilters_def held_sorted_def no_params_def filtered_state_def
        example_state_def empty_cache_def)
  have second: "fetchLeads example_runtime 1 no_params (?d1, setLeadFilters [] ?s1)
      = (Remote 0, ?d1, held_sorted example_runtime no_params (setLeadFilters [] ?s1))"
    using fetchLeads_miss_cases [OF m1, of ?d1] by simp
  have n: "network (held_sorted example_runtime no_params (setLeadFilters [] ?s1)) = [?r]"
    by (simp add: setLeadFilters_def filtered_state_def example_state_def)
  have e: "fetchLeads_request example_runtime no_params example_state
      = fetchLeads_request example_runtime (no_params\<lparr> page := Some 1 \<rparr>) example_state"
    by (simp add: fetchLeads_request_def no_params_def)
  have ne: "fetchLeads_request example_runtime no_params filtered_state
      \<noteq> fetchLeads_request example_runtime no_params example_state"
    unfolding r by (simp add: example_request example_state_def)
  show ?thesis
    using e key_page ne first second n by simp
qed

subsection \<open>The deduplicator\<close>


lemma dedup_inv_pending: "dedup_inv d \<Longrightarrow> activeRequests d key = Some p \<Longrightarrow> pending d p = Some key"
  by (simp add: dedup_inv_def)

lemma dedup_inv_active: "dedup_inv d \<Longrightarrow> pending d p = Some key \<Longrightarrow> activeRequests d key = Some p"
  by (simp add: dedup_inv_def)

lemma dedup_inv_bound: "dedup_inv d \<Longrightarrow> pending d p = Some key \<Longrightarrow> p < next_promise d"
  unfolding dedup_inv_def by blast

lemma makeRequest_registered:
  "activeRequests d key = Some p \<Longrightarrow> makeRequest key f (d, s) = (p, d, s)"
  by (simp add: makeRequest_def)

lemma makeRequest_fresh:
  "activeRequests d key = None \<Longrightarrow>
   makeRequest key f (d, s) =
     (next_promise d,
      d\<lparr> activeRequests := (activeRequests d)(key \<mapsto> next_promise d),
         pending := (pending d)(next_promise d \<mapsto> key),
         next_promise := Suc (next_promise d),
         started := started d @ [(key, next_promise d)] \<rparr>,
      f s)"
  by (simp add: makeRequest_def Let_def)

lemma dedup_invI:
  assumes "\<And>key p. activeRequests d key = Some p \<Longrightarrow> pending d p = Some key"
    and "\<And>key p. pending d p = Some key \<Longrightarrow> activeRequests d key = Some p"
    and "\<And>key p. pending d p = Some key \<Longrightarrow> p < next_promise d"
  shows "dedup_inv d"
  unfolding dedup_inv_def using assms by blast

lemma dedup_inv_makeRequest:
  assumes "dedup_inv d" and "makeRequest key f (d, s) = (p, d', s')"
  shows "dedup_inv d'"
proof (cases "activeRequests d key")
  case None
  have fresh: "pending d (next_promise d) = None"
    using dedup_inv_bound [OF assms(1), of "next_promise d"]
    by (cases "pending d (next_promise d)") auto
  have nokey: "pending d q \<noteq> Some key" for q
    using dedup_inv_active [OF assms(1), of q key] None by auto
  from assms(2) have a: "activeRequests d' = (activeRequests d)(key \<mapsto> next_promise d)"
    and b: "pending d' = (pending d)(next_promise d \<mapsto> key)"
    and n: "next_promise d' = Suc (next_promise d)"
    by (auto simp: makeRequest_fresh [OF None])
  show ?thesis
  proof (rule dedup_invI)
    fix k q
    assume "activeRequests d' k = Some q"
    then have "(k = key \<and> q = next_promise d) \<or> (k \<noteq> key \<and> activeRequests d k = Some q)"
      by (auto simp: a split: if_splits)
    then show "pending d' q = Some k"
    proof
      assume "k = key \<and> q = next_promise d"
      then show ?thesis by (simp add: b)
    next
      assume h: "k \<noteq> key \<and> activeRequests d k = Some q"
      then have "pending d q = Some k"
        using dedup_inv_pending [OF assms(1)] by simp
      with fresh have "q \<noteq> next_promise d" by auto
      with \<open>pending d q = Some k\<close> show ?thesis by (simp add: b)
    qed
  next
    fix k q
    assume "pending d' q = Some k"
    then have "(q = next_promise d \<and> k = key) \<or> (q \<noteq> next_promise d \<and> pending d q = Some k)"
      by (auto simp: b split: if_splits)
    then show "activeRequests d' k = Some q"
    proof
      assume "q = next_promise d \<and> k = key"
      then show ?thesis by (simp add: a)
    next
      assume h: "q \<noteq> next_promise d \<and> pending d q = Some k"
      then have "activeRequests d k = Some q"
        using dedup_inv_active [OF assms(1)] by simp
      moreover have "k \<noteq> key" using h nokey [of q] by auto
      ultimately show ?thesis by (simp add: a)
    qed
  next
    fix k q
    assume "pending d' q = Some k"
    then have "q = next_promise d \<or> pending d q = Some k"
      by (auto simp: b split: if_splits)
    then show "q < next_promise d'"
      using dedup_inv_bound [OF assms(1), of q k] by (auto simp: n)
  qed
next
  case (Some q)
  with assms show ?thesis
    by (simp add: makeRequest_registered)
qed

lemma dedup_inv_settle:
  assumes "dedup_inv d" and "settle p c (d, s) = (d', s')"
  shows "dedup_inv d'"
proof (cases "pending d p")
  case None
  with assms show ?thesis by (simp add: settle_def)
next
  case (Some key)
  have act: "activeRequests d key = Some p"
    by (rule dedup_inv_active [OF assms(1) Some])
  from assms(2) Some have a: "activeRequests d' = (activeRequests d)(key := None)"
    and b: "pending d' = (pending d)(p := None)"
    and n: "next_promise d' = next_promise d"
    by (auto simp: settle_def)
  show ?thesis
  proof (rule dedup_invI)
    fix k q
    assume "activeRequests d' k = Some q"
    then have h: "k \<noteq> key" "activeRequests d k = Some q"
      by (auto simp: a split: if_splits)
    then have "pending d q = Some k"
      using dedup_inv_pending [OF assms(1)] by simp
    moreover have "q \<noteq> p" using h Some \<open>pending d q = Some k\<close> by auto
    ultimately show "pending d' q = Some k" by (simp add: b)
  next
    fix k q
    assume "pending d' q = Some k"
    then have h: "q \<noteq> p" "pending d q = Some k"
      by (auto simp: b split: if_splits)
    then have "activeRequests d k = Some q"
      using dedup_inv_active [OF assms(1)] by simp
    moreover have "k \<noteq> key" using h act \<open>activeRequests d k = Some q\<close> by auto
    ultimately show "activeRequests d' k = Some q" by (simp add: a)
  next
    fix k q
    assume "pending d' q = Some k"
    then have "pending d q = Some k"
      by (auto simp: b split: if_splits)
    then show "q < next_promise d'"
      using dedup_inv_bound [OF assms(1)] by (simp add: n)
  qed
qed

lemma dedup_inv_exec:
  "dedup_inv d \<Longrightarrow> exec es (d, s) = (rs, d', s') \<Longrightarrow> dedup_inv d'"
proof (induction es arbitrary: d s rs)
  case Nil
  then show ?case by simp
next
  case (Cons e es)
  show ?case
  proof (cases e)
    case (Call key f)
    obtain p d1 s1 where m: "makeRequest key f (d, s) = (p, d1, s1)"
      by (cases "makeRequest key f (d, s)") auto
    obtain rs1 where "exec es (d1, s1) = (rs1, d', s')"
      using Cons.prems(2) Call m by (auto split: prod.splits)
    with dedup_inv_makeRequest [OF Cons.prems(1) m] show ?thesis
      by (rule Cons.IH)
  next
    case (Settle q c)
    obtain d1 s1 where st: "settle q c (d, s) = (d1, s1)"
      by (cases "settle q c (d, s)") auto
    have "exec es (d1, s1) = (rs, d', s')"
      using Cons.prems(2) Settle st by simp
    with dedup_inv_settle [OF Cons.prems(1) st] show ?thesis
      by (rule Cons.IH)
  qed
qed







end
